theory Spec2Isabelle
  imports Complex_Main
begin

section \<open>Inventory core of the sales and products routers\<close>

text \<open>
  The handlers of \<^verbatim>\<open>server/routers/sales.py\<close> and \<^verbatim>\<open>server/routers/products.py\<close>
  are embedded as functions on a connection state. Every \<^verbatim>\<open>conn.execute\<close> of the
  source is one statement function below, every \<^verbatim>\<open>raise HTTPException\<close> is an
  \<open>Inl\<close> result, and \<^verbatim>\<open>conn.commit()\<close> / \<^verbatim>\<open>conn.rollback()\<close> are explicit.
  The columns \<^verbatim>\<open>created_at\<close> and \<^verbatim>\<open>updated_at\<close> hold the wall clock and are left out.
\<close>

subsection \<open>Rows and tables\<close>

record product =
  p_id :: int
  p_userId :: int
  p_name :: string
  p_description :: "string option"
  p_stock :: int
  p_unit :: string
  p_supplierId :: "int option"
  p_version :: int

record sale =
  s_id :: int
  s_userId :: int
  s_productName :: string
  s_quantity :: int
  s_customerId :: "int option"
  s_saleDate :: "string option"
  s_totalSalePrice :: "real option"
  s_note :: "string option"

text \<open>Customers and suppliers are only tested for existence: a row is \<open>(id, userId)\<close>.\<close>

record database =
  products :: "product list"
  sales :: "sale list"
  customers :: "(int \<times> int) list"
  suppliers :: "(int \<times> int) list"

subsection \<open>The connection\<close>

text \<open>
  \<open>db\<close> is what the connection reads and writes, \<open>saved\<close> is the last committed
  state, to which a rollback returns, and \<open>total_changes\<close> is the attribute of that
  name of the sqlite3 connection: the number of rows changed by every statement since
  the connection was opened. A pooled connection arrives with any count.
\<close>

record conn =
  db :: database
  saved :: database
  total_changes :: nat

definition commit :: "conn \<Rightarrow> conn" where
  "commit c = c\<lparr>saved := db c\<rparr>"

definition rollback :: "conn \<Rightarrow> conn" where
  "rollback c = c\<lparr>db := saved c\<rparr>"

text \<open>
  The store admits one writer at a time, and a connection becomes the writer with its
  first writing statement. Between the reads of a handler and that first write other
  connections may commit; \<open>others_commit f\<close> is that point, with \<open>f\<close> the net effect
  of their transactions. \<open>f = (\<lambda>d. d)\<close> is a run without interleaving.
\<close>

definition others_commit :: "(database \<Rightarrow> database) \<Rightarrow> conn \<Rightarrow> conn" where
  "others_commit f c = c\<lparr>db := f (db c), saved := f (saved c)\<rparr>"

subsection \<open>Errors\<close>

datatype entity = RefProduct | RefCustomer | RefSupplier

datatype error =
    NotFound
  | InvalidReference entity
  | InsufficientStock
  | NoFields
  | NameExists
  | VersionConflict
  | Unexpected

fun status_code :: "error \<Rightarrow> nat" where
  "status_code NotFound = 404"
| "status_code (InvalidReference _) = 400"
| "status_code InsufficientStock = 400"
| "status_code NoFields = 400"
| "status_code NameExists = 400"
| "status_code VersionConflict = 409"
| "status_code Unexpected = 500"

subsection \<open>Statements\<close>

text \<open>\<^verbatim>\<open>fetchone()\<close> of a SELECT is the first matching row, \<open>find\<close>.\<close>

definition select_product_by_name :: "int \<Rightarrow> string \<Rightarrow> database \<Rightarrow> product option" where
  "select_product_by_name user_id name d =
     find (\<lambda>p. p_userId p = user_id \<and> p_name p = name) (products d)"

definition select_product :: "int \<Rightarrow> int \<Rightarrow> database \<Rightarrow> product option" where
  "select_product product_id user_id d =
     find (\<lambda>p. p_id p = product_id \<and> p_userId p = user_id) (products d)"

definition select_product_by_id :: "int \<Rightarrow> database \<Rightarrow> product option" where
  "select_product_by_id product_id d = find (\<lambda>p. p_id p = product_id) (products d)"

definition select_sale :: "int \<Rightarrow> int \<Rightarrow> database \<Rightarrow> sale option" where
  "select_sale sale_id user_id d =
     find (\<lambda>s. s_id s = sale_id \<and> s_userId s = user_id) (sales d)"

definition select_sale_by_id :: "int \<Rightarrow> database \<Rightarrow> sale option" where
  "select_sale_by_id sale_id d = find (\<lambda>s. s_id s = sale_id) (sales d)"

definition customer_exists :: "int \<Rightarrow> int \<Rightarrow> database \<Rightarrow> bool" where
  "customer_exists customer_id user_id d = ((customer_id, user_id) \<in> set (customers d))"

definition supplier_exists :: "int \<Rightarrow> int \<Rightarrow> database \<Rightarrow> bool" where
  "supplier_exists supplier_id user_id d = ((supplier_id, user_id) \<in> set (suppliers d))"

text \<open>\<^verbatim>\<open>lastrowid\<close> of an INSERT: one more than the largest id of the table.\<close>

definition next_rowid :: "int list \<Rightarrow> int" where
  "next_rowid ids = fold max ids 0 + 1"

text \<open>
  \<^verbatim>\<open>UPDATE products SET stock = ?, version = version + 1 WHERE id = ? AND userId = ? AND version = ?\<close>,
  the statement of all four stock paths. The first component is \<^verbatim>\<open>rowcount\<close>.
\<close>

definition stock_hit :: "int \<Rightarrow> int \<Rightarrow> int \<Rightarrow> product \<Rightarrow> bool" where
  "stock_hit product_id user_id version p =
     (p_id p = product_id \<and> p_userId p = user_id \<and> p_version p = version)"

definition set_stock :: "int \<Rightarrow> int \<Rightarrow> int \<Rightarrow> int \<Rightarrow> product list \<Rightarrow> product list" where
  "set_stock new_stock product_id user_id version rows =
     map (\<lambda>p. if stock_hit product_id user_id version p
               then p\<lparr>p_stock := new_stock, p_version := p_version p + 1\<rparr>
               else p) rows"

definition update_stock :: "int \<Rightarrow> int \<Rightarrow> int \<Rightarrow> int \<Rightarrow> conn \<Rightarrow> nat \<times> conn" where
  "update_stock new_stock product_id user_id version c =
     (let n = length (filter (stock_hit product_id user_id version) (products (db c)))
      in (n, c\<lparr>db := (db c)\<lparr>products :=
                 set_stock new_stock product_id user_id version (products (db c))\<rparr>,
               total_changes := total_changes c + n\<rparr>))"

definition insert_sale :: "sale \<Rightarrow> conn \<Rightarrow> int \<times> conn" where
  "insert_sale row c =
     (let i = next_rowid (map s_id (sales (db c)))
      in (i, c\<lparr>db := (db c)\<lparr>sales := sales (db c) @ [row\<lparr>s_id := i\<rparr>]\<rparr>,
               total_changes := total_changes c + 1\<rparr>))"

subsection \<open>create_sale\<close>

record SaleCreate =
  sc_productName :: string
  sc_quantity :: int
  sc_customerId :: "int option"
  sc_saleDate :: "string option"
  sc_totalSalePrice :: "real option"
  sc_note :: "string option"

definition create_sale ::
  "(database \<Rightarrow> database) \<Rightarrow> int \<Rightarrow> SaleCreate \<Rightarrow> conn \<Rightarrow> (error + sale) \<times> conn" where
  "create_sale others user_id sale_data conn =
     (case select_product_by_name user_id (sc_productName sale_data) (db conn) of
        None \<Rightarrow> (Inl (InvalidReference RefProduct), conn)
      | Some product \<Rightarrow>
          let product_id = p_id product;
              current_stock = p_stock product;
              product_version = p_version product
          in
          if current_stock < sc_quantity sale_data then (Inl InsufficientStock, conn)
          else if (case sc_customerId sale_data of
                     None \<Rightarrow> False
                   | Some cid \<Rightarrow> \<not> customer_exists cid user_id (db conn))
          then (Inl (InvalidReference RefCustomer), conn)
          else
            let conn1 = others_commit others conn;
                (sale_id, conn2) = insert_sale
                   \<lparr>s_id = 0, s_userId = user_id,
                    s_productName = sc_productName sale_data,
                    s_quantity = sc_quantity sale_data,
                    s_customerId = sc_customerId sale_data,
                    s_saleDate = sc_saleDate sale_data,
                    s_totalSalePrice = sc_totalSalePrice sale_data,
                    s_note = sc_note sale_data\<rparr> conn1;
                new_stock = current_stock - sc_quantity sale_data
            in
            if new_stock < 0 then (Inl InsufficientStock, rollback conn2)
            else
              let (rowcount, conn3) =
                    update_stock new_stock product_id user_id product_version conn2
              in
              if rowcount = 0 then (Inl VersionConflict, rollback conn3)
              else
                let conn4 = commit conn3
                in (case select_sale_by_id sale_id (db conn4) of
                      None \<Rightarrow> (Inl Unexpected, conn4)
                    | Some row \<Rightarrow> (Inr row, conn4)))"

subsection \<open>update_sale\<close>

record SaleUpdate =
  su_productName :: "string option"
  su_quantity :: "int option"
  su_customerId :: "int option"
  su_saleDate :: "string option"
  su_totalSalePrice :: "real option"
  su_note :: "string option"

text \<open>
  \<^verbatim>\<open>sale_data.productName and sale_data.productName != old_product_name\<close>: a name
  that is \<^verbatim>\<open>None\<close> or empty is falsy.
\<close>

definition name_changed :: "SaleUpdate \<Rightarrow> string \<Rightarrow> bool" where
  "name_changed sale_data old_product_name =
     (case su_productName sale_data of
        None \<Rightarrow> False
      | Some n \<Rightarrow> n \<noteq> [] \<and> n \<noteq> old_product_name)"

text \<open>\<^verbatim>\<open>sale_data.productName if sale_data.productName else old_product_name\<close>.\<close>

definition new_product_name :: "SaleUpdate \<Rightarrow> string \<Rightarrow> string" where
  "new_product_name sale_data old_product_name =
     (case su_productName sale_data of
        None \<Rightarrow> old_product_name
      | Some n \<Rightarrow> if n \<noteq> [] then n else old_product_name)"

text \<open>\<^verbatim>\<open>sale_data.quantity if sale_data.quantity is not None else old_quantity\<close>.\<close>

definition quantity_or_old :: "SaleUpdate \<Rightarrow> int \<Rightarrow> int" where
  "quantity_or_old sale_data old_quantity =
     (case su_quantity sale_data of None \<Rightarrow> old_quantity | Some q \<Rightarrow> q)"

text \<open>\<^verbatim>\<open>if not update_fields\<close>: none of the six fields was supplied.\<close>

definition no_update_fields :: "SaleUpdate \<Rightarrow> bool" where
  "no_update_fields sale_data =
     (su_productName sale_data = None \<and> su_quantity sale_data = None \<and>
      su_saleDate sale_data = None \<and> su_customerId sale_data = None \<and>
      su_totalSalePrice sale_data = None \<and> su_note sale_data = None)"

text \<open>The assignments of the supplied fields; customer id 0 is stored as NULL.\<close>

definition set_sale_fields :: "SaleUpdate \<Rightarrow> sale \<Rightarrow> sale" where
  "set_sale_fields sale_data s =
     s\<lparr>s_productName := (case su_productName sale_data of None \<Rightarrow> s_productName s | Some n \<Rightarrow> n),
       s_quantity := (case su_quantity sale_data of None \<Rightarrow> s_quantity s | Some q \<Rightarrow> q),
       s_saleDate := (case su_saleDate sale_data of None \<Rightarrow> s_saleDate s | Some d \<Rightarrow> Some d),
       s_customerId := (case su_customerId sale_data of
                          None \<Rightarrow> s_customerId s
                        | Some k \<Rightarrow> if k \<noteq> 0 then Some k else None),
       s_totalSalePrice := (case su_totalSalePrice sale_data of
                              None \<Rightarrow> s_totalSalePrice s | Some t \<Rightarrow> Some t),
       s_note := (case su_note sale_data of None \<Rightarrow> s_note s | Some t \<Rightarrow> Some t)\<rparr>"

text \<open>\<^verbatim>\<open>UPDATE sales SET ... WHERE id = ? AND userId = ?\<close>.\<close>

definition update_sale_row :: "SaleUpdate \<Rightarrow> int \<Rightarrow> int \<Rightarrow> conn \<Rightarrow> conn" where
  "update_sale_row sale_data sale_id user_id c =
     c\<lparr>db := (db c)\<lparr>sales :=
            map (\<lambda>s. if s_id s = sale_id \<and> s_userId s = user_id
                      then set_sale_fields sale_data s else s) (sales (db c))\<rparr>,
       total_changes := total_changes c +
            length (filter (\<lambda>s. s_id s = sale_id \<and> s_userId s = user_id) (sales (db c)))\<rparr>"

text \<open>
  Lines 543 to 566: the stock of the product the sale named before goes back up by
  the old quantity. The flag is the test \<^verbatim>\<open>conn.total_changes == 0\<close> that follows
  the update; a product that is gone is passed over.
\<close>

definition restore_old_product :: "int \<Rightarrow> string \<Rightarrow> int \<Rightarrow> conn \<Rightarrow> bool \<times> conn" where
  "restore_old_product user_id old_product_name old_quantity c =
     (case select_product_by_name user_id old_product_name (db c) of
        None \<Rightarrow> (False, c)
      | Some old_product \<Rightarrow>
          let old_new_stock = p_stock old_product + old_quantity;
              (n, c') = update_stock old_new_stock (p_id old_product) user_id
                          (p_version old_product) c
          in (total_changes c' = 0, c'))"

text \<open>
  Lines 484 to 596, the \<^verbatim>\<open>try\<close> block: the update of the sale row and of the stock,
  committed, or rolled back with the error that was raised.
\<close>

definition update_sale_txn ::
  "int \<Rightarrow> int \<Rightarrow> SaleUpdate \<Rightarrow> sale \<Rightarrow> product \<Rightarrow> conn \<Rightarrow> error option \<times> conn" where
  "update_sale_txn user_id sale_id sale_data row new_product c =
     (let old_quantity = s_quantity row;
          old_product_name = s_productName row;
          new_quantity = quantity_or_old sale_data old_quantity;
          product_id = p_id new_product;
          current_stock = p_stock new_product;
          product_version = p_version new_product;
          quantity_diff = old_quantity - new_quantity
      in
      if no_update_fields sale_data then (Some NoFields, rollback c)
      else
        let c2 = update_sale_row sale_data sale_id user_id c
        in
        if quantity_diff \<noteq> 0 then
          let new_stock = current_stock + quantity_diff
          in
          if new_stock < 0 then (Some InsufficientStock, rollback c2)
          else
            let (conflict, c3) =
                  (if name_changed sale_data old_product_name
                   then restore_old_product user_id old_product_name old_quantity c2
                   else (False, c2))
            in
            if conflict then (Some VersionConflict, rollback c3)
            else
              let (rowcount, c4) =
                    update_stock new_stock product_id user_id product_version c3
              in
              if rowcount = 0 then (Some VersionConflict, rollback c4)
              else (None, commit c4)
        else (None, commit c2))"

text \<open>Lines 598 to 628: the row is read again by id alone and returned.\<close>

definition reload_sale :: "int \<Rightarrow> conn \<Rightarrow> (error + sale) \<times> conn" where
  "reload_sale sale_id c =
     (case select_sale_by_id sale_id (db c) of
        None \<Rightarrow> (Inl Unexpected, c)
      | Some r \<Rightarrow> (Inr r, c))"

definition update_sale ::
  "(database \<Rightarrow> database) \<Rightarrow> int \<Rightarrow> int \<Rightarrow> SaleUpdate \<Rightarrow> conn \<Rightarrow> (error + sale) \<times> conn" where
  "update_sale others user_id sale_id sale_data conn =
     (case select_sale sale_id user_id (db conn) of
        None \<Rightarrow> (Inl NotFound, conn)
      | Some row \<Rightarrow>
          let old_quantity = s_quantity row;
              old_product_name = s_productName row;
              new_quantity = quantity_or_old sale_data old_quantity
          in
          (case (if name_changed sale_data old_product_name
                 then select_product_by_name user_id
                        (new_product_name sale_data old_product_name) (db conn)
                 else select_product_by_name user_id old_product_name (db conn)) of
             None \<Rightarrow> (Inl (InvalidReference RefProduct), conn)
           | Some new_product \<Rightarrow>
               let current_stock = p_stock new_product
               in
               if new_quantity > old_quantity \<and> current_stock < new_quantity - old_quantity
               then (Inl InsufficientStock, conn)
               else if (case su_customerId sale_data of
                          None \<Rightarrow> False
                        | Some k \<Rightarrow> k \<noteq> 0 \<and> \<not> customer_exists k user_id (db conn))
               then (Inl (InvalidReference RefCustomer), conn)
               else
                 (case update_sale_txn user_id sale_id sale_data row new_product
                         (others_commit others conn) of
                    (Some e, c) \<Rightarrow> (Inl e, c)
                  | (None, c) \<Rightarrow> reload_sale sale_id c)))"

subsection \<open>delete_sale\<close>

text \<open>\<^verbatim>\<open>DELETE FROM sales WHERE id = ? AND userId = ?\<close>.\<close>

definition delete_sale_row :: "int \<Rightarrow> int \<Rightarrow> conn \<Rightarrow> conn" where
  "delete_sale_row sale_id user_id c =
     c\<lparr>db := (db c)\<lparr>sales :=
            filter (\<lambda>s. \<not> (s_id s = sale_id \<and> s_userId s = user_id)) (sales (db c))\<rparr>,
       total_changes := total_changes c +
            length (filter (\<lambda>s. s_id s = sale_id \<and> s_userId s = user_id) (sales (db c)))\<rparr>"

definition delete_sale ::
  "(database \<Rightarrow> database) \<Rightarrow> int \<Rightarrow> int \<Rightarrow> conn \<Rightarrow> (error + unit) \<times> conn" where
  "delete_sale others user_id sale_id conn =
     (case select_sale sale_id user_id (db conn) of
        None \<Rightarrow> (Inl NotFound, conn)
      | Some sale \<Rightarrow>
          let product_name = s_productName sale;
              quantity = s_quantity sale
          in
          (case select_product_by_name user_id product_name (db conn) of
             None \<Rightarrow>
               let conn1 = others_commit others conn;
                   conn2 = delete_sale_row sale_id user_id conn1
               in (Inr (), commit conn2)
           | Some product \<Rightarrow>
               let conn1 = others_commit others conn;
                   new_stock = p_stock product + quantity;
                   (rowcount, conn2) =
                      update_stock new_stock (p_id product) user_id (p_version product) conn1
               in
               if rowcount = 0 then (Inl VersionConflict, rollback conn2)
               else
                 let conn3 = delete_sale_row sale_id user_id conn2
                 in (Inr (), commit conn3)))"

subsection \<open>Products\<close>

text \<open>
  \<^verbatim>\<open>version=row[7] if row[7] else 1\<close>: a stored version of 0 is read as 1, in the
  responses and in the version comparisons of the two update handlers.
\<close>

definition version_or_1 :: "int \<Rightarrow> int" where
  "version_or_1 v = (if v \<noteq> 0 then v else 1)"

definition ProductResponse :: "product \<Rightarrow> product" where
  "ProductResponse row = row\<lparr>p_version := version_or_1 (p_version row)\<rparr>"

record ProductCreate =
  pc_name :: string
  pc_description :: "string option"
  pc_stock :: int
  pc_unit :: string
  pc_supplierId :: "int option"

definition insert_product :: "product \<Rightarrow> conn \<Rightarrow> int \<times> conn" where
  "insert_product row c =
     (let i = next_rowid (map p_id (products (db c)))
      in (i, c\<lparr>db := (db c)\<lparr>products := products (db c) @ [row\<lparr>p_id := i\<rparr>]\<rparr>,
               total_changes := total_changes c + 1\<rparr>))"

definition create_product :: "int \<Rightarrow> ProductCreate \<Rightarrow> conn \<Rightarrow> (error + product) \<times> conn" where
  "create_product user_id product_data conn =
     (case select_product_by_name user_id (pc_name product_data) (db conn) of
        Some existing \<Rightarrow> (Inl NameExists, conn)
      | None \<Rightarrow>
          if (case pc_supplierId product_data of
                None \<Rightarrow> False
              | Some k \<Rightarrow> \<not> supplier_exists k user_id (db conn))
          then (Inl (InvalidReference RefSupplier), conn)
          else
            let (product_id, conn1) = insert_product
                   \<lparr>p_id = 0, p_userId = user_id,
                    p_name = pc_name product_data,
                    p_description = pc_description product_data,
                    p_stock = pc_stock product_data,
                    p_unit = pc_unit product_data,
                    p_supplierId = pc_supplierId product_data,
                    p_version = 1\<rparr> conn;
                conn2 = commit conn1
            in (case select_product_by_id product_id (db conn2) of
                  None \<Rightarrow> (Inl Unexpected, conn2)
                | Some row \<Rightarrow> (Inr (ProductResponse row), conn2)))"

record ProductUpdate =
  pu_name :: "string option"
  pu_description :: "string option"
  pu_stock :: "int option"
  pu_unit :: "string option"
  pu_supplierId :: "int option"
  pu_version :: "int option"

definition no_product_fields :: "ProductUpdate \<Rightarrow> bool" where
  "no_product_fields product_data =
     (pu_name product_data = None \<and> pu_description product_data = None \<and>
      pu_stock product_data = None \<and> pu_unit product_data = None \<and>
      pu_supplierId product_data = None)"

definition set_product_fields :: "ProductUpdate \<Rightarrow> product \<Rightarrow> product" where
  "set_product_fields product_data p =
     p\<lparr>p_name := (case pu_name product_data of None \<Rightarrow> p_name p | Some n \<Rightarrow> n),
       p_description := (case pu_description product_data of
                           None \<Rightarrow> p_description p | Some t \<Rightarrow> Some t),
       p_stock := (case pu_stock product_data of None \<Rightarrow> p_stock p | Some q \<Rightarrow> q),
       p_unit := (case pu_unit product_data of None \<Rightarrow> p_unit p | Some u \<Rightarrow> u),
       p_supplierId := (case pu_supplierId product_data of
                          None \<Rightarrow> p_supplierId p
                        | Some k \<Rightarrow> if k \<noteq> 0 then Some k else None),
       p_version := p_version p + 1\<rparr>"

text \<open>
  \<^verbatim>\<open>UPDATE products SET ..., version = version + 1 WHERE id = ? AND userId = ?\<close>:
  the statement of the general update, whose predicate has no version.
\<close>

definition update_product_row :: "ProductUpdate \<Rightarrow> int \<Rightarrow> int \<Rightarrow> conn \<Rightarrow> conn" where
  "update_product_row product_data product_id user_id c =
     c\<lparr>db := (db c)\<lparr>products :=
            map (\<lambda>p. if p_id p = product_id \<and> p_userId p = user_id
                      then set_product_fields product_data p else p) (products (db c))\<rparr>,
       total_changes := total_changes c +
            length (filter (\<lambda>p. p_id p = product_id \<and> p_userId p = user_id) (products (db c)))\<rparr>"

definition update_product ::
  "(database \<Rightarrow> database) \<Rightarrow> int \<Rightarrow> int \<Rightarrow> ProductUpdate \<Rightarrow> conn \<Rightarrow> (error + product) \<times> conn" where
  "update_product others user_id product_id product_data conn =
     (case select_product product_id user_id (db conn) of
        None \<Rightarrow> (Inl NotFound, conn)
      | Some row \<Rightarrow>
          let current_version = version_or_1 (p_version row)
          in
          if (case pu_version product_data of None \<Rightarrow> False | Some v \<Rightarrow> v \<noteq> current_version)
          then (Inl VersionConflict, conn)
          else if (case pu_name product_data of
                     None \<Rightarrow> False
                   | Some n \<Rightarrow> n \<noteq> [] \<and> n \<noteq> p_name row \<and>
                       find (\<lambda>p. p_userId p = user_id \<and> p_name p = n \<and> p_id p \<noteq> product_id)
                         (products (db conn)) \<noteq> None)
          then (Inl NameExists, conn)
          else if (case pu_supplierId product_data of
                     None \<Rightarrow> False
                   | Some k \<Rightarrow> Some k \<noteq> p_supplierId row \<and> k \<noteq> 0 \<and>
                       \<not> supplier_exists k user_id (db conn))
          then (Inl (InvalidReference RefSupplier), conn)
          else if no_product_fields product_data then (Inl NoFields, conn)
          else
            let conn1 = others_commit others conn;
                conn2 = update_product_row product_data product_id user_id conn1;
                conn3 = commit conn2
            in (case select_product_by_id product_id (db conn3) of
                  None \<Rightarrow> (Inl Unexpected, conn3)
                | Some r \<Rightarrow> (Inr (ProductResponse r), conn3)))"

text \<open>\<^verbatim>\<open>DELETE FROM products WHERE id = ? AND userId = ?\<close>.\<close>

definition delete_product_row :: "int \<Rightarrow> int \<Rightarrow> conn \<Rightarrow> conn" where
  "delete_product_row product_id user_id c =
     c\<lparr>db := (db c)\<lparr>products :=
            filter (\<lambda>p. \<not> (p_id p = product_id \<and> p_userId p = user_id)) (products (db c))\<rparr>,
       total_changes := total_changes c +
            length (filter (\<lambda>p. p_id p = product_id \<and> p_userId p = user_id) (products (db c)))\<rparr>"

definition delete_product :: "int \<Rightarrow> int \<Rightarrow> conn \<Rightarrow> (error + unit) \<times> conn" where
  "delete_product user_id product_id conn =
     (case select_product product_id user_id (db conn) of
        None \<Rightarrow> (Inl NotFound, conn)
      | Some product \<Rightarrow>
          let conn1 = delete_product_row product_id user_id conn
          in (Inr (), commit conn1))"

record ProductStockUpdate =
  ps_quantity :: int
  ps_version :: int

definition update_product_stock ::
  "(database \<Rightarrow> database) \<Rightarrow> int \<Rightarrow> int \<Rightarrow> ProductStockUpdate \<Rightarrow> conn
     \<Rightarrow> (error + product) \<times> conn" where
  "update_product_stock others user_id product_id stock_data conn =
     (case select_product product_id user_id (db conn) of
        None \<Rightarrow> (Inl NotFound, conn)
      | Some row \<Rightarrow>
          let current_stock = p_stock row;
              current_version = version_or_1 (p_version row)
          in
          if ps_version stock_data \<noteq> current_version then (Inl VersionConflict, conn)
          else
            let new_stock = current_stock + ps_quantity stock_data
            in
            if new_stock < 0 then (Inl InsufficientStock, conn)
            else
              let conn1 = others_commit others conn;
                  (n, conn2) = update_stock new_stock product_id user_id current_version conn1
              in
              if total_changes conn2 = 0 then (Inl VersionConflict, conn2)
              else
                let conn3 = commit conn2
                in (case select_product_by_id product_id (db conn3) of
                      None \<Rightarrow> (Inl Unexpected, conn3)
                    | Some r \<Rightarrow> (Inr (ProductResponse r), conn3)))"

subsection \<open>The routes\<close>

text \<open>
  The seven writing routes of the two routers, each with the authenticated user id
  and the path and body parameters, and the connection a request leaves behind.
\<close>

datatype request =
    CreateSale int SaleCreate
  | UpdateSale int int SaleUpdate
  | DeleteSale int int
  | CreateProduct int ProductCreate
  | UpdateProduct int int ProductUpdate
  | DeleteProduct int int
  | UpdateProductStock int int ProductStockUpdate

fun handle :: "(database \<Rightarrow> database) \<Rightarrow> request \<Rightarrow> conn \<Rightarrow> conn" where
  "handle others (CreateSale user_id sale_data) c = snd (create_sale others user_id sale_data c)"
| "handle others (UpdateSale user_id sale_id sale_data) c =
     snd (update_sale others user_id sale_id sale_data c)"
| "handle others (DeleteSale user_id sale_id) c = snd (delete_sale others user_id sale_id c)"
| "handle others (CreateProduct user_id product_data) c =
     snd (create_product user_id product_data c)"
| "handle others (UpdateProduct user_id product_id product_data) c =
     snd (update_product others user_id product_id product_data c)"
| "handle others (DeleteProduct user_id product_id) c = snd (delete_product user_id product_id c)"
| "handle others (UpdateProductStock user_id product_id stock_data) c =
     snd (update_product_stock others user_id product_id stock_data c)"

text \<open>Requests served one after the other, each with what other connections commit meanwhile.\<close>

fun run :: "((database \<Rightarrow> database) \<times> request) list \<Rightarrow> conn \<Rightarrow> conn" where
  "run [] c = c"
| "run (step # steps) c = run steps (handle (fst step) (snd step) c)"

text \<open>
  The requests whose body carries no negative quantity of a sale and no negative stock
  of a product. No handler tests either value: \<open>create_sale\<close> and \<open>update_sale\<close>
  store the quantity, \<open>create_product\<close> and \<open>update_product\<close> the stock, as given.
\<close>

fun nonneg_request :: "request \<Rightarrow> bool" where
  "nonneg_request (CreateSale user_id sale_data) = (0 \<le> sc_quantity sale_data)"
| "nonneg_request (UpdateSale user_id sale_id sale_data) =
     (case su_quantity sale_data of None \<Rightarrow> True | Some q \<Rightarrow> 0 \<le> q)"
| "nonneg_request (CreateProduct user_id product_data) = (0 \<le> pc_stock product_data)"
| "nonneg_request (UpdateProduct user_id product_id product_data) =
     (case pu_stock product_data of None \<Rightarrow> True | Some q \<Rightarrow> 0 \<le> q)"
| "nonneg_request (DeleteSale user_id sale_id) = True"
| "nonneg_request (DeleteProduct user_id product_id) = True"
| "nonneg_request (UpdateProductStock user_id product_id stock_data) = True"

text \<open>No product has negative stock, and no stored sale has a negative quantity.\<close>

definition stock_ok :: "product list \<Rightarrow> bool" where
  "stock_ok rows = (\<forall>p \<in> set rows. 0 \<le> p_stock p)"

definition quantity_ok :: "sale list \<Rightarrow> bool" where
  "quantity_ok rows = (\<forall>s \<in> set rows. 0 \<le> s_quantity s)"

definition stock_inv :: "database \<Rightarrow> bool" where
  "stock_inv d = (stock_ok (products d) \<and> quantity_ok (sales d))"

subsection \<open>A small store\<close>

text \<open>
  User 1 owns product A (stock 10) and product B (stock 20), both at version 1, one
  sale of 5 units of A, and customer 7. The connection has changed rows before.
\<close>

definition prodA :: product where
  "prodA = \<lparr>p_id = 1, p_userId = 1, p_name = ''A'', p_description = None, p_stock = 10,
            p_unit = ''kg'', p_supplierId = None, p_version = 1\<rparr>"

definition prodB :: product where
  "prodB = \<lparr>p_id = 2, p_userId = 1, p_name = ''B'', p_description = None, p_stock = 20,
            p_unit = ''kg'', p_supplierId = None, p_version = 1\<rparr>"

definition sale1 :: sale where
  "sale1 = \<lparr>s_id = 1, s_userId = 1, s_productName = ''A'', s_quantity = 5,
            s_customerId = None, s_saleDate = None, s_totalSalePrice = None, s_note = None\<rparr>"

definition db0 :: database where
  "db0 = \<lparr>products = [prodA, prodB], sales = [sale1], customers = [(7, 1)], suppliers = []\<rparr>"

definition conn0 :: conn where
  "conn0 = \<lparr>db = db0, saved = db0, total_changes = 3\<rparr>"

definition no_others :: "database \<Rightarrow> database" where
  "no_others d = d"

definition sale_of :: "string \<Rightarrow> int \<Rightarrow> SaleCreate" where
  "sale_of name q = \<lparr>sc_productName = name, sc_quantity = q, sc_customerId = None,
                     sc_saleDate = None, sc_totalSalePrice = None, sc_note = None\<rparr>"

definition edit_of :: "string option \<Rightarrow> int option \<Rightarrow> int option \<Rightarrow> SaleUpdate" where
  "edit_of name q k = \<lparr>su_productName = name, su_quantity = q, su_customerId = k,
                       su_saleDate = None, su_totalSalePrice = None, su_note = None\<rparr>"

definition stock_edit :: "int \<Rightarrow> int option \<Rightarrow> ProductUpdate" where
  "stock_edit q v = \<lparr>pu_name = None, pu_description = None, pu_stock = Some q,
                     pu_unit = None, pu_supplierId = None, pu_version = v\<rparr>"

text \<open>The same store after product A was deleted: sale 1 names a product that is gone.\<close>

definition conn_orphan :: conn where
  "conn_orphan = \<lparr>db = db0\<lparr>products := [prodB]\<rparr>, saved = db0\<lparr>products := [prodB]\<rparr>,
                  total_changes = 3\<rparr>"

text \<open>The same store with sale 1 made to customer 7.\<close>

definition conn_customer :: conn where
  "conn_customer = \<lparr>db = db0\<lparr>sales := [sale1\<lparr>s_customerId := Some 7\<rparr>]\<rparr>,
                    saved = db0\<lparr>sales := [sale1\<lparr>s_customerId := Some 7\<rparr>]\<rparr>,
                    total_changes = 3\<rparr>"

text \<open>
  Another connection sells 2 units of product B between the reads and the first write:
  B goes to stock 18 and version 2.
\<close>

definition bump_B :: "database \<Rightarrow> database" where
  "bump_B d = d\<lparr>products := set_stock 18 2 1 1 (products d)\<rparr>"

text \<open>
  The products table after lines 543 to 566 ran on the table of \<open>d\<close>: the product
  the sale named before, if it is still there, has the old quantity back.
\<close>

definition restored_products :: "int \<Rightarrow> sale \<Rightarrow> database \<Rightarrow> product list" where
  "restored_products user_id row d =
     (case select_product_by_name user_id (s_productName row) d of
        None \<Rightarrow> products d
      | Some old_product \<Rightarrow>
          set_stock (p_stock old_product + s_quantity row) (p_id old_product) user_id
            (p_version old_product) (products d))"

text \<open>The edit that moves sale 1 to product B with quantity 8.\<close>

definition move_to_B :: SaleUpdate where
  "move_to_B = edit_of (Some ''B'') (Some 8) None"

text \<open>Another connection sells 2 units of product A: A goes to stock 8 and version 2.\<close>

definition bump_A :: "database \<Rightarrow> database" where
  "bump_A d = d\<lparr>products := set_stock 8 1 1 1 (products d)\<rparr>"

text \<open>A third product for user 1.\<close>

definition new_C :: ProductCreate where
  "new_C = \<lparr>pc_name = ''C'', pc_description = None, pc_stock = 5, pc_unit = ''kg'',
            pc_supplierId = None\<rparr>"

definition prodC :: product where
  "prodC = \<lparr>p_id = 3, p_userId = 1, p_name = ''C'', p_description = None, p_stock = 5,
            p_unit = ''kg'', p_supplierId = None, p_version = 1\<rparr>"

section \<open>Properties\<close>

subsection \<open>Atomicity of a refused sale\<close>

lemmas store_defs =
  prodA_def prodB_def sale1_def db0_def conn0_def no_others_def sale_of_def edit_of_def
  stock_edit_def conn_orphan_def conn_customer_def bump_B_def move_to_B_def bump_A_def
  new_C_def prodC_def

lemmas stmt_defs =
  select_product_by_name_def select_product_def select_product_by_id_def
  select_sale_def select_sale_by_id_def customer_exists_def supplier_exists_def
  next_rowid_def stock_hit_def set_stock_def update_stock_def insert_sale_def insert_product_def
  commit_def rollback_def others_commit_def update_sale_row_def delete_sale_row_def
  update_product_row_def delete_product_row_def name_changed_def new_product_name_def
  no_update_fields_def set_sale_fields_def quantity_or_old_def restore_old_product_def
  update_sale_txn_def reload_sale_def no_product_fields_def set_product_fields_def
  version_or_1_def ProductResponse_def

text \<open>
  C4. If \<open>create_sale\<close> fails with InsufficientStock, the connection is as before the
  call: no sale row was added, and no product row (stock, version or anything else)
  was touched, whatever other connections would have committed.
\<close>

theorem create_sale_insufficient_unchanged:
  "fst (create_sale others user_id sale_data conn) = Inl InsufficientStock \<Longrightarrow>
   snd (create_sale others user_id sale_data conn) = conn"
  by (auto simp: create_sale_def Let_def split: option.splits if_splits prod.splits)

theorem create_sale_insufficient_unchanged_witness:
  "fst (create_sale no_others 1 (sale_of ''A'' 15) conn0) = Inl InsufficientStock \<and>
   snd (create_sale no_others 1 (sale_of ''A'' 15) conn0) = conn0"
  using create_sale_insufficient_unchanged [of no_others 1 "sale_of ''A'' 15" conn0]
  by (simp add: create_sale_def store_defs stmt_defs)

subsection \<open>Owner scoping\<close>

lemma find_other_owner:
  "distinct (map key rows) \<Longrightarrow> r \<in> set rows \<Longrightarrow> key r = i \<Longrightarrow> owner r \<noteq> u \<Longrightarrow>
   find (\<lambda>x. key x = i \<and> owner x = u) rows = None"
  by (auto simp: find_None_iff distinct_map dest: inj_onD)

text \<open>
  C8. The ids of a table are its primary key. When the sale (the product) with the
  given id belongs to another user, each of \<open>update_sale\<close>, \<open>delete_sale\<close>,
  \<open>update_product\<close>, \<open>delete_product\<close> and \<open>update_product_stock\<close> returns NotFound,
  never VersionConflict and never a success, and hands the connection back as it was,
  whatever other connections do in between.
\<close>

theorem wrong_owner_not_found:
  assumes "distinct (map s_id (sales (db conn)))"
    and "distinct (map p_id (products (db conn)))"
  shows "(s \<in> set (sales (db conn)) \<and> s_id s = sale_id \<and> s_userId s \<noteq> user_id \<longrightarrow>
            update_sale others user_id sale_id sale_data conn = (Inl NotFound, conn) \<and>
            delete_sale others user_id sale_id conn = (Inl NotFound, conn)) \<and>
         (p \<in> set (products (db conn)) \<and> p_id p = product_id \<and> p_userId p \<noteq> user_id \<longrightarrow>
            update_product others user_id product_id product_data conn = (Inl NotFound, conn) \<and>
            delete_product user_id product_id conn = (Inl NotFound, conn) \<and>
            update_product_stock others user_id product_id stock_data conn = (Inl NotFound, conn))"
proof (intro conjI impI)
  assume h: "s \<in> set (sales (db conn)) \<and> s_id s = sale_id \<and> s_userId s \<noteq> user_id"
  then have none: "select_sale sale_id user_id (db conn) = None"
    unfolding select_sale_def using assms(1) by (intro find_other_owner [of s_id _ s]) auto
  show "update_sale others user_id sale_id sale_data conn = (Inl NotFound, conn)"
    by (simp add: update_sale_def none)
  show "delete_sale others user_id sale_id conn = (Inl NotFound, conn)"
    by (simp add: delete_sale_def none)
next
  assume h: "p \<in> set (products (db conn)) \<and> p_id p = product_id \<and> p_userId p \<noteq> user_id"
  then have none: "select_product product_id user_id (db conn) = None"
    unfolding select_product_def using assms(2) by (intro find_other_owner [of p_id _ p]) auto
  show "update_product others user_id product_id product_data conn = (Inl NotFound, conn)"
    by (simp add: update_product_def none)
  show "delete_product user_id product_id conn = (Inl NotFound, conn)"
    by (simp add: delete_product_def none)
  show "update_product_stock others user_id product_id stock_data conn = (Inl NotFound, conn)"
    by (simp add: update_product_stock_def none)
qed

theorem wrong_owner_not_found_witness:
  "distinct (map s_id (sales (db conn0))) \<and> distinct (map p_id (products (db conn0))) \<and>
   sale1 \<in> set (sales (db conn0)) \<and> s_id sale1 = 1 \<and> s_userId sale1 \<noteq> 2 \<and>
   prodA \<in> set (products (db conn0)) \<and> p_id prodA = 1 \<and> p_userId prodA \<noteq> 2 \<and>
   update_sale no_others 2 1 (edit_of None (Some 3) None) conn0 = (Inl NotFound, conn0) \<and>
   delete_sale no_others 2 1 conn0 = (Inl NotFound, conn0) \<and>
   update_product no_others 2 1 (stock_edit 4 None) conn0 = (Inl NotFound, conn0) \<and>
   delete_product 2 1 conn0 = (Inl NotFound, conn0) \<and>
   update_product_stock no_others 2 1 \<lparr>ps_quantity = 1, ps_version = 1\<rparr> conn0
     = (Inl NotFound, conn0)"
proof -
  have d: "distinct (map s_id (sales (db conn0)))" "distinct (map p_id (products (db conn0)))"
    by (simp_all add: store_defs)
  have m: "sale1 \<in> set (sales (db conn0)) \<and> s_id sale1 = 1 \<and> s_userId sale1 \<noteq> 2"
    "prodA \<in> set (products (db conn0)) \<and> p_id prodA = 1 \<and> p_userId prodA \<noteq> 2"
    by (simp_all add: store_defs)
  show ?thesis
    using d m wrong_owner_not_found [OF d, of sale1 1 2 no_others "edit_of None (Some 3) None"
      prodA 1 "stock_edit 4 None" "\<lparr>ps_quantity = 1, ps_version = 1\<rparr>"]
    by blast
qed

subsection \<open>Deleting a sale\<close>

lemma find_Some_hit: "find P xs = Some x \<Longrightarrow> x \<in> set xs \<and> P x"
  by (induction xs) (auto split: if_splits)

lemma filter_hit_nonempty: "x \<in> set xs \<Longrightarrow> P x \<Longrightarrow> length (filter P xs) \<noteq> 0"
  by (auto simp: filter_empty_conv)

text \<open>
  C9. Let \<open>delete_sale\<close> find the sale. If no product of the user carries the sale's
  product name, the call succeeds, the sale row is deleted and committed, and the
  products table is what the other connections left. If the product \<open>pr\<close> is found
  and nothing interleaves, the call succeeds and one commit holds both the deletion of
  the sale row and the update of \<open>pr\<close> to its stock plus the sale's quantity.
\<close>

theorem delete_sale_restores_or_skips:
  assumes "select_sale sale_id user_id (db conn) = Some sale"
  shows "(select_product_by_name user_id (s_productName sale) (db conn) = None \<longrightarrow>
            fst (delete_sale others user_id sale_id conn) = Inr () \<and>
            products (db (snd (delete_sale others user_id sale_id conn)))
              = products (others (db conn)) \<and>
            sales (db (snd (delete_sale others user_id sale_id conn)))
              = filter (\<lambda>s. \<not> (s_id s = sale_id \<and> s_userId s = user_id))
                  (sales (others (db conn))) \<and>
            saved (snd (delete_sale others user_id sale_id conn))
              = db (snd (delete_sale others user_id sale_id conn))) \<and>
         (select_product_by_name user_id (s_productName sale) (db conn) = Some pr \<longrightarrow>
            fst (delete_sale (\<lambda>d. d) user_id sale_id conn) = Inr () \<and>
            products (db (snd (delete_sale (\<lambda>d. d) user_id sale_id conn)))
              = set_stock (p_stock pr + s_quantity sale) (p_id pr) user_id (p_version pr)
                  (products (db conn)) \<and>
            sales (db (snd (delete_sale (\<lambda>d. d) user_id sale_id conn)))
              = filter (\<lambda>s. \<not> (s_id s = sale_id \<and> s_userId s = user_id)) (sales (db conn)) \<and>
            saved (snd (delete_sale (\<lambda>d. d) user_id sale_id conn))
              = db (snd (delete_sale (\<lambda>d. d) user_id sale_id conn)))"
proof (intro conjI impI)
  assume none: "select_product_by_name user_id (s_productName sale) (db conn) = None"
  have r: "delete_sale others user_id sale_id conn =
        (Inr (), commit (delete_sale_row sale_id user_id (others_commit others conn)))"
    by (simp add: delete_sale_def assms none)
  show "fst (delete_sale others user_id sale_id conn) = Inr ()" by (simp add: r)
  show "products (db (snd (delete_sale others user_id sale_id conn))) = products (others (db conn))"
    by (simp add: r commit_def delete_sale_row_def others_commit_def)
  show "sales (db (snd (delete_sale others user_id sale_id conn)))
      = filter (\<lambda>s. \<not> (s_id s = sale_id \<and> s_userId s = user_id)) (sales (others (db conn)))"
    by (simp add: r commit_def delete_sale_row_def others_commit_def)
  show "saved (snd (delete_sale others user_id sale_id conn))
      = db (snd (delete_sale others user_id sale_id conn))"
    by (simp add: r commit_def)
next
  assume some: "select_product_by_name user_id (s_productName sale) (db conn) = Some pr"
  then have "pr \<in> set (products (db conn)) \<and> p_userId pr = user_id"
    unfolding select_product_by_name_def by (auto dest: find_Some_hit)
  then have n: "length (filter (stock_hit (p_id pr) user_id (p_version pr)) (products (db conn))) \<noteq> 0"
    by (intro filter_hit_nonempty [of pr]) (auto simp: stock_hit_def)
  have oc: "others_commit (\<lambda>d. d) conn = conn"
    by (simp add: others_commit_def)
  have r: "delete_sale (\<lambda>d. d) user_id sale_id conn =
        (Inr (), commit (delete_sale_row sale_id user_id
           (snd (update_stock (p_stock pr + s_quantity sale) (p_id pr) user_id (p_version pr) conn))))"
    using n by (simp add: delete_sale_def assms some oc update_stock_def Let_def)
  show "fst (delete_sale (\<lambda>d. d) user_id sale_id conn) = Inr ()" by (simp add: r)
  show "products (db (snd (delete_sale (\<lambda>d. d) user_id sale_id conn)))
      = set_stock (p_stock pr + s_quantity sale) (p_id pr) user_id (p_version pr)
          (products (db conn))"
    by (simp add: r commit_def delete_sale_row_def update_stock_def Let_def)
  show "sales (db (snd (delete_sale (\<lambda>d. d) user_id sale_id conn)))
      = filter (\<lambda>s. \<not> (s_id s = sale_id \<and> s_userId s = user_id)) (sales (db conn))"
    by (simp add: r commit_def delete_sale_row_def update_stock_def Let_def)
  show "saved (snd (delete_sale (\<lambda>d. d) user_id sale_id conn))
      = db (snd (delete_sale (\<lambda>d. d) user_id sale_id conn))"
    by (simp add: r commit_def)
qed

theorem delete_sale_restores_or_skips_witness:
  "select_sale 1 1 (db conn_orphan) = Some sale1 \<and>
   select_product_by_name 1 (s_productName sale1) (db conn_orphan) = None \<and>
   fst (delete_sale no_others 1 1 conn_orphan) = Inr () \<and>
   products (db (snd (delete_sale no_others 1 1 conn_orphan))) = [prodB] \<and>
   sales (db (snd (delete_sale no_others 1 1 conn_orphan))) = [] \<and>
   select_sale 1 1 (db conn0) = Some sale1 \<and>
   select_product_by_name 1 (s_productName sale1) (db conn0) = Some prodA \<and>
   fst (delete_sale (\<lambda>d. d) 1 1 conn0) = Inr () \<and>
   products (db (snd (delete_sale (\<lambda>d. d) 1 1 conn0)))
     = [prodA\<lparr>p_stock := 15, p_version := 2\<rparr>, prodB] \<and>
   sales (db (snd (delete_sale (\<lambda>d. d) 1 1 conn0))) = [] \<and>
   saved (snd (delete_sale (\<lambda>d. d) 1 1 conn0)) = db (snd (delete_sale (\<lambda>d. d) 1 1 conn0))"
proof -
  have a: "select_sale 1 1 (db conn_orphan) = Some sale1"
    by (simp add: store_defs stmt_defs)
  have b: "select_sale 1 1 (db conn0) = Some sale1"
    by (simp add: store_defs stmt_defs)
  have n: "select_product_by_name 1 (s_productName sale1) (db conn_orphan) = None"
    by (simp add: store_defs stmt_defs)
  have s: "select_product_by_name 1 (s_productName sale1) (db conn0) = Some prodA"
    by (simp add: store_defs stmt_defs)
  show ?thesis
    using a b n s
      delete_sale_restores_or_skips [OF a, of no_others prodA]
      delete_sale_restores_or_skips [OF b, of no_others prodA]
    by (simp add: store_defs stock_hit_def set_stock_def)
qed

subsection \<open>The paths of update_sale\<close>

text \<open>The product an edit is charged to: looked up under the new name of the sale.\<close>

lemma new_product_lookup:
  "(if name_changed sale_data old_name
    then select_product_by_name user_id (new_product_name sale_data old_name) d
    else select_product_by_name user_id old_name d)
   = select_product_by_name user_id (new_product_name sale_data old_name) d"
  by (auto simp: name_changed_def new_product_name_def split: option.splits)

lemma update_sale_paths:
  obtains
    (not_found) "select_sale sale_id user_id (db conn) = None"
      "update_sale others user_id sale_id sale_data conn = (Inl NotFound, conn)"
  | (no_product) row where "select_sale sale_id user_id (db conn) = Some row"
      "select_product_by_name user_id (new_product_name sale_data (s_productName row)) (db conn)
         = None"
      "update_sale others user_id sale_id sale_data conn = (Inl (InvalidReference RefProduct), conn)"
  | (insufficient) row np where "select_sale sale_id user_id (db conn) = Some row"
      "select_product_by_name user_id (new_product_name sale_data (s_productName row)) (db conn)
         = Some np"
      "quantity_or_old sale_data (s_quantity row) > s_quantity row"
      "p_stock np < quantity_or_old sale_data (s_quantity row) - s_quantity row"
      "update_sale others user_id sale_id sale_data conn = (Inl InsufficientStock, conn)"
  | (no_customer) row np k where "select_sale sale_id user_id (db conn) = Some row"
      "select_product_by_name user_id (new_product_name sale_data (s_productName row)) (db conn)
         = Some np"
      "su_customerId sale_data = Some k" "k \<noteq> 0" "\<not> customer_exists k user_id (db conn)"
      "update_sale others user_id sale_id sale_data conn = (Inl (InvalidReference RefCustomer), conn)"
  | (txn_failed) row np e c where "select_sale sale_id user_id (db conn) = Some row"
      "select_product_by_name user_id (new_product_name sale_data (s_productName row)) (db conn)
         = Some np"
      "quantity_or_old sale_data (s_quantity row) > s_quantity row \<longrightarrow>
         p_stock np \<ge> quantity_or_old sale_data (s_quantity row) - s_quantity row"
      "\<forall>k. su_customerId sale_data = Some k \<and> k \<noteq> 0 \<longrightarrow> customer_exists k user_id (db conn)"
      "update_sale_txn user_id sale_id sale_data row np (others_commit others conn) = (Some e, c)"
      "update_sale others user_id sale_id sale_data conn = (Inl e, c)"
  | (txn_done) row np c where "select_sale sale_id user_id (db conn) = Some row"
      "select_product_by_name user_id (new_product_name sale_data (s_productName row)) (db conn)
         = Some np"
      "quantity_or_old sale_data (s_quantity row) > s_quantity row \<longrightarrow>
         p_stock np \<ge> quantity_or_old sale_data (s_quantity row) - s_quantity row"
      "\<forall>k. su_customerId sale_data = Some k \<and> k \<noteq> 0 \<longrightarrow> customer_exists k user_id (db conn)"
      "update_sale_txn user_id sale_id sale_data row np (others_commit others conn) = (None, c)"
      "update_sale others user_id sale_id sale_data conn = reload_sale sale_id c"
proof (cases "select_sale sale_id user_id (db conn)")
  case None
  then show thesis using not_found by (simp add: update_sale_def)
next
  case (Some row)
  note row = this
  show thesis
  proof (cases "select_product_by_name user_id
                  (new_product_name sale_data (s_productName row)) (db conn)")
    case None
    then show thesis using no_product [OF row]
      by (simp add: update_sale_def row Let_def new_product_lookup)
  next
    case (Some np)
    note np = this
    show thesis
    proof (cases "quantity_or_old sale_data (s_quantity row) > s_quantity row \<and>
                  p_stock np < quantity_or_old sale_data (s_quantity row) - s_quantity row")
      case True
      have "update_sale others user_id sale_id sale_data conn = (Inl InsufficientStock, conn)"
        using True by (simp add: update_sale_def row np Let_def new_product_lookup)
      then show thesis using insufficient [OF row np] True by simp
    next
      case False
      then have suff: "quantity_or_old sale_data (s_quantity row) > s_quantity row \<longrightarrow>
         p_stock np \<ge> quantity_or_old sale_data (s_quantity row) - s_quantity row"
        by auto
      show thesis
      proof (cases "case su_customerId sale_data of None \<Rightarrow> False
                    | Some k \<Rightarrow> k \<noteq> 0 \<and> \<not> customer_exists k user_id (db conn)")
        case True
        then obtain k where k: "su_customerId sale_data = Some k" "k \<noteq> 0"
            "\<not> customer_exists k user_id (db conn)"
          by (cases "su_customerId sale_data") auto
        have "update_sale others user_id sale_id sale_data conn
             = (Inl (InvalidReference RefCustomer), conn)"
          using False k by (simp add: update_sale_def row np Let_def new_product_lookup)
        then show thesis using no_customer [OF row np k] by simp
      next
        case cust: False
        then have cu: "\<forall>k. su_customerId sale_data = Some k \<and> k \<noteq> 0
                         \<longrightarrow> customer_exists k user_id (db conn)"
          by (auto split: option.splits)
        obtain eo c where t:
            "update_sale_txn user_id sale_id sale_data row np (others_commit others conn) = (eo, c)"
          by (cases "update_sale_txn user_id sale_id sale_data row np (others_commit others conn)")
        have u: "update_sale others user_id sale_id sale_data conn
                = (case eo of Some e \<Rightarrow> (Inl e, c) | None \<Rightarrow> reload_sale sale_id c)"
          unfolding update_sale_def Let_def new_product_lookup
          by (simp add: row np False cust t split: option.splits)
        show thesis
        proof (cases eo)
          case None
          then show thesis using txn_done [OF row np suff cu] t u by simp
        next
          case (Some e)
          then show thesis using txn_failed [OF row np suff cu] t u by simp
        qed
      qed
    qed
  qed
qed

subsection \<open>Editing a sale: the customer\<close>

lemma update_stock_sales [simp]:
  "sales (db (snd (update_stock ns pid uid v c))) = sales (db c)"
  by (simp add: update_stock_def Let_def)

lemma restore_old_product_sales [simp]:
  "sales (db (snd (restore_old_product uid name q c))) = sales (db c)"
  by (simp add: restore_old_product_def update_stock_def Let_def split: option.splits)

lemma update_sale_txn_sales:
  assumes "fst (update_sale_txn user_id sale_id sale_data row np c) = None"
  shows "sales (db (snd (update_sale_txn user_id sale_id sale_data row np c)))
     = sales (db (update_sale_row sale_data sale_id user_id c))"
proof -
  define c2 where "c2 = update_sale_row sale_data sale_id user_id c"
  define r where "r = (if name_changed sale_data (s_productName row)
                   then restore_old_product user_id (s_productName row) (s_quantity row) c2
                   else (False, c2))"
  define u where "u = update_stock (p_stock np + (s_quantity row -
        quantity_or_old sale_data (s_quantity row)))
        (p_id np) user_id (p_version np) (snd r)"
  have sr: "sales (db (snd r)) = sales (db c2)"
    by (simp add: r_def)
  have su: "sales (db (snd u)) = sales (db c2)"
    by (simp add: u_def sr)
  show ?thesis
    using assms sr su
    unfolding update_sale_txn_def Let_def c2_def [symmetric] r_def [symmetric]
    by (simp add: commit_def u_def [symmetric] case_prod_unfold split: if_splits)
qed

lemma update_sale_txn_no_reference_error:
  "fst (update_sale_txn user_id sale_id sale_data row np c) \<noteq> Some (InvalidReference e)"
  unfolding update_sale_txn_def Let_def
  by (simp add: case_prod_unfold)

lemma set_sale_fields_customer:
  "su_customerId sale_data = Some 0 \<Longrightarrow> s_customerId (set_sale_fields sale_data s) = None"
  by (simp add: set_sale_fields_def)

lemma update_sale_row_sales:
  "sales (db (update_sale_row sale_data sale_id user_id c)) =
     map (\<lambda>s. if s_id s = sale_id \<and> s_userId s = user_id
               then set_sale_fields sale_data s else s) (sales (db c))"
  by (simp add: update_sale_row_def)

lemma update_sale_row_customer:
  assumes z: "su_customerId sale_data = Some 0"
    and m: "s \<in> set (sales (db (update_sale_row sale_data sale_id user_id c)))"
    and k: "s_id s = sale_id \<and> s_userId s = user_id"
  shows "s_customerId s = None"
proof -
  from m obtain s0 where s0: "s0 \<in> set (sales (db c))"
    and e: "s = (if s_id s0 = sale_id \<and> s_userId s0 = user_id
                 then set_sale_fields sale_data s0 else s0)"
    unfolding update_sale_row_sales set_map by (rule imageE)
  show ?thesis
  proof (cases "s_id s0 = sale_id \<and> s_userId s0 = user_id")
    case True
    with e have "s = set_sale_fields sale_data s0" by simp
    then show ?thesis using z by (simp only: set_sale_fields_customer)
  next
    case False
    with e have "s = s0" by simp
    with k False show ?thesis by simp
  qed
qed

lemma reload_sale_conn [simp]: "snd (reload_sale sale_id c) = c"
  by (simp add: reload_sale_def split: option.splits)

text \<open>
  C10. With customer id 0 in the request, \<open>update_sale\<close> never fails for a missing
  customer, whatever the customers table holds, and when it succeeds every stored row
  of that sale has no customer. With a customer id other than 0 that is not a customer
  of the caller, the call fails and leaves the connection as it was: the sale, the
  product and the stock are tested first, and once the sale is found, the product is
  found and the stock suffices, the answer is the invalid reference to the customer.
\<close>

theorem update_sale_customer_zero:
  "(su_customerId sale_data = Some 0 \<longrightarrow>
      fst (update_sale others user_id sale_id sale_data conn)
        \<noteq> Inl (InvalidReference RefCustomer) \<and>
      (\<forall>r. fst (update_sale others user_id sale_id sale_data conn) = Inr r \<longrightarrow>
         (\<forall>s \<in> set (sales (db (snd (update_sale others user_id sale_id sale_data conn)))).
            s_id s = sale_id \<and> s_userId s = user_id \<longrightarrow> s_customerId s = None))) \<and>
   (su_customerId sale_data = Some k \<and> k \<noteq> 0 \<and> \<not> customer_exists k user_id (db conn) \<longrightarrow>
      snd (update_sale others user_id sale_id sale_data conn) = conn \<and>
      fst (update_sale others user_id sale_id sale_data conn) \<in>
        {Inl NotFound, Inl (InvalidReference RefProduct), Inl InsufficientStock,
         Inl (InvalidReference RefCustomer)}) \<and>
   (su_customerId sale_data = Some k \<and> k \<noteq> 0 \<and> \<not> customer_exists k user_id (db conn) \<and>
    select_sale sale_id user_id (db conn) = Some row \<and>
    select_product_by_name user_id
      (new_product_name sale_data (s_productName row)) (db conn) = Some np \<and>
    (quantity_or_old sale_data (s_quantity row) \<le> s_quantity row \<or>
     quantity_or_old sale_data (s_quantity row) - s_quantity row \<le> p_stock np) \<longrightarrow>
      update_sale others user_id sale_id sale_data conn
        = (Inl (InvalidReference RefCustomer), conn))"
proof (intro conjI impI allI ballI)
  assume z: "su_customerId sale_data = Some 0"
  show "fst (update_sale others user_id sale_id sale_data conn)
      \<noteq> Inl (InvalidReference RefCustomer)"
  proof (cases rule: update_sale_paths [of sale_id user_id conn others sale_data])
    case (txn_failed row np e c)
    then show ?thesis
      using update_sale_txn_no_reference_error
        [of user_id sale_id sale_data row np "others_commit others conn" RefCustomer]
      by auto
  next
    case (txn_done row np c)
    then show ?thesis by (simp add: reload_sale_def split: option.splits)
  qed (use z in auto)
next
  fix r s
  assume z: "su_customerId sale_data = Some 0"
    and ok: "fst (update_sale others user_id sale_id sale_data conn) = Inr r"
    and s: "s \<in> set (sales (db (snd (update_sale others user_id sale_id sale_data conn))))"
    and k: "s_id s = sale_id \<and> s_userId s = user_id"
  show "s_customerId s = None"
  proof (cases rule: update_sale_paths [of sale_id user_id conn others sale_data])
    case (txn_done row np c)
    then have "fst (update_sale_txn user_id sale_id sale_data row np (others_commit others conn))
                 = None"
      and "snd (update_sale_txn user_id sale_id sale_data row np (others_commit others conn)) = c"
      by simp_all
    then have "sales (db c) = sales (db (update_sale_row sale_data sale_id user_id
                                           (others_commit others conn)))"
      using update_sale_txn_sales by blast
    with s txn_done(6) have "s \<in> set (sales (db (update_sale_row sale_data sale_id user_id
                                      (others_commit others conn))))"
      by simp
    then show ?thesis
      using update_sale_row_customer [OF z _ k] by blast
  qed (use ok in auto)
next
  assume h: "su_customerId sale_data = Some k \<and> k \<noteq> 0 \<and> \<not> customer_exists k user_id (db conn)"
  show "snd (update_sale others user_id sale_id sale_data conn) = conn"
    by (cases rule: update_sale_paths [of sale_id user_id conn others sale_data])
       (use h in auto)
  show "fst (update_sale others user_id sale_id sale_data conn) \<in>
        {Inl NotFound, Inl (InvalidReference RefProduct), Inl InsufficientStock,
         Inl (InvalidReference RefCustomer)}"
    by (cases rule: update_sale_paths [of sale_id user_id conn others sale_data])
       (use h in auto)
next
  assume h: "su_customerId sale_data = Some k \<and> k \<noteq> 0 \<and> \<not> customer_exists k user_id (db conn) \<and>
    select_sale sale_id user_id (db conn) = Some row \<and>
    select_product_by_name user_id
      (new_product_name sale_data (s_productName row)) (db conn) = Some np \<and>
    (quantity_or_old sale_data (s_quantity row) \<le> s_quantity row \<or>
     quantity_or_old sale_data (s_quantity row) - s_quantity row \<le> p_stock np)"
  then show "update_sale others user_id sale_id sale_data conn
        = (Inl (InvalidReference RefCustomer), conn)"
    by (auto simp: update_sale_def Let_def new_product_lookup)
qed

theorem update_sale_customer_zero_witness:
  "su_customerId (edit_of None None (Some 0)) = Some 0 \<and>
   fst (update_sale no_others 1 1 (edit_of None None (Some 0)) conn_customer)
     = Inr (sale1\<lparr>s_customerId := None\<rparr>) \<and>
   list_all (\<lambda>s. s_id s = 1 \<and> s_userId s = 1 \<longrightarrow> s_customerId s = None)
     (sales (db (snd (update_sale no_others 1 1 (edit_of None None (Some 0))
                        conn_customer)))) \<and>
   su_customerId (edit_of None None (Some 9)) = Some 9 \<and> (9::int) \<noteq> 0 \<and>
   \<not> customer_exists 9 1 (db conn0) \<and>
   select_sale 1 1 (db conn0) = Some sale1 \<and>
   select_product_by_name 1
     (new_product_name (edit_of None None (Some 9)) (s_productName sale1)) (db conn0)
     = Some prodA \<and>
   quantity_or_old (edit_of None None (Some 9)) (s_quantity sale1) \<le> s_quantity sale1 \<and>
   update_sale no_others 1 1 (edit_of None None (Some 9)) conn0
     = (Inl (InvalidReference RefCustomer), conn0)"
proof -
  have a: "fst (update_sale no_others 1 1 (edit_of None None (Some 0)) conn_customer)
     = Inr (sale1\<lparr>s_customerId := None\<rparr>)"
    by code_simp
  have h: "su_customerId (edit_of None None (Some 0)) = Some 0"
    "su_customerId (edit_of None None (Some 9)) = Some 9 \<and> (9::int) \<noteq> 0 \<and>
     \<not> customer_exists 9 1 (db conn0)"
    by code_simp+
  have g: "select_sale 1 1 (db conn0) = Some sale1 \<and>
     select_product_by_name 1
       (new_product_name (edit_of None None (Some 9)) (s_productName sale1)) (db conn0)
       = Some prodA \<and>
     quantity_or_old (edit_of None None (Some 9)) (s_quantity sale1) \<le> s_quantity sale1"
    by code_simp
  from update_sale_customer_zero
    [of "edit_of None None (Some 0)" no_others 1 1 conn_customer 9 sale1 prodA] h(1) a
  have p1: "\<forall>s \<in> set (sales (db (snd (update_sale no_others 1 1 (edit_of None None (Some 0))
                                 conn_customer)))).
      s_id s = 1 \<and> s_userId s = 1 \<longrightarrow> s_customerId s = None"
    by blast
  from update_sale_customer_zero
    [of "edit_of None None (Some 9)" no_others 1 1 conn0 9 sale1 prodA] h(2) g
  have p2: "update_sale no_others 1 1 (edit_of None None (Some 9)) conn0
     = (Inl (InvalidReference RefCustomer), conn0)"
    by blast
  show ?thesis
    using a h g p1 p2 by (simp add: list_all_iff)
qed

subsection \<open>The paths of the transaction of update_sale\<close>

lemma update_stock_rowcount:
  "fst (update_stock new_stock product_id user_id version c)
     = length (filter (stock_hit product_id user_id version) (products (db c)))"
  by (simp add: update_stock_def Let_def)

lemma update_stock_products:
  "products (db (snd (update_stock new_stock product_id user_id version c)))
     = set_stock new_stock product_id user_id version (products (db c))"
  by (simp add: update_stock_def Let_def)

lemma update_stock_total_changes:
  "total_changes (snd (update_stock new_stock product_id user_id version c))
     = total_changes c + fst (update_stock new_stock product_id user_id version c)"
  by (simp add: update_stock_def Let_def)

lemma update_stock_saved [simp]:
  "saved (snd (update_stock new_stock product_id user_id version c)) = saved c"
  by (simp add: update_stock_def Let_def)

text \<open>
  The product read by name inside the transaction is a row of the table with exactly
  the id, owner and version of the update that follows, so that update changes a row
  and \<^verbatim>\<open>total_changes\<close> is not 0 after it: the test never fires.
\<close>

lemma restore_old_product_no_conflict:
  "fst (restore_old_product user_id old_product_name old_quantity c) = False"
proof (cases "select_product_by_name user_id old_product_name (db c)")
  case None
  then show ?thesis by (simp add: restore_old_product_def)
next
  case (Some old_product)
  then have "old_product \<in> set (products (db c)) \<and> p_userId old_product = user_id"
    unfolding select_product_by_name_def by (auto dest: find_Some_hit)
  then have "length (filter (stock_hit (p_id old_product) user_id (p_version old_product))
                       (products (db c))) \<noteq> 0"
    by (intro filter_hit_nonempty [of old_product]) (auto simp: stock_hit_def)
  then show ?thesis
    by (simp add: restore_old_product_def Some Let_def case_prod_unfold
        update_stock_total_changes update_stock_rowcount)
qed

lemma update_sale_txn_paths:
  fixes user_id sale_id sale_data row np c
  defines "c2 \<equiv> update_sale_row sale_data sale_id user_id c"
    and "new_stock \<equiv> p_stock np + (s_quantity row - quantity_or_old sale_data (s_quantity row))"
  defines "c3 \<equiv> (if name_changed sale_data (s_productName row)
                   then snd (restore_old_product user_id (s_productName row) (s_quantity row) c2)
                   else c2)"
  defines "u \<equiv> update_stock new_stock (p_id np) user_id (p_version np) c3"
  obtains
    (no_fields) "no_update_fields sale_data"
      "update_sale_txn user_id sale_id sale_data row np c = (Some NoFields, rollback c)"
  | (same_quantity) "\<not> no_update_fields sale_data"
      "quantity_or_old sale_data (s_quantity row) = s_quantity row"
      "update_sale_txn user_id sale_id sale_data row np c = (None, commit c2)"
  | (negative) "\<not> no_update_fields sale_data"
      "quantity_or_old sale_data (s_quantity row) \<noteq> s_quantity row" "new_stock < 0"
      "update_sale_txn user_id sale_id sale_data row np c
         = (Some InsufficientStock, rollback c2)"
  | (new_conflict) "\<not> no_update_fields sale_data"
      "quantity_or_old sale_data (s_quantity row) \<noteq> s_quantity row" "new_stock \<ge> 0"
      "fst u = 0"
      "update_sale_txn user_id sale_id sale_data row np c
         = (Some VersionConflict, rollback (snd u))"
  | (moved) "\<not> no_update_fields sale_data"
      "quantity_or_old sale_data (s_quantity row) \<noteq> s_quantity row" "new_stock \<ge> 0"
      "fst u \<noteq> 0"
      "update_sale_txn user_id sale_id sale_data row np c = (None, commit (snd u))"
proof -
  define r where "r = (if name_changed sale_data (s_productName row)
                       then restore_old_product user_id (s_productName row) (s_quantity row) c2
                       else (False, c2))"
  have r1: "fst r = False"
    by (simp add: r_def restore_old_product_no_conflict)
  have r2: "snd r = c3"
    by (simp add: r_def c3_def)
  have t: "update_sale_txn user_id sale_id sale_data row np c =
      (if no_update_fields sale_data then (Some NoFields, rollback c)
       else if s_quantity row - quantity_or_old sale_data (s_quantity row) \<noteq> 0 then
         if new_stock < 0 then (Some InsufficientStock, rollback c2)
         else if fst u = 0 then (Some VersionConflict, rollback (snd u))
         else (None, commit (snd u))
       else (None, commit c2))"
    unfolding update_sale_txn_def Let_def c2_def [symmetric] r_def [symmetric]
      new_stock_def [symmetric]
    by (simp add: case_prod_unfold r1 r2 u_def)
  show thesis
  proof (cases "no_update_fields sale_data")
    case True
    then show thesis using no_fields t by simp
  next
    case nf: False
    show thesis
    proof (cases "quantity_or_old sale_data (s_quantity row) = s_quantity row")
      case True
      then show thesis using same_quantity nf t by simp
    next
      case q: False
      show thesis
      proof (cases "new_stock < 0")
        case True
        then show thesis using negative nf q t by simp
      next
        case ns: False
        show thesis
        proof (cases "fst u = 0")
          case True
          then show thesis using new_conflict nf q ns t by simp
        next
          case False
          then show thesis using moved nf q ns t by simp
        qed
      qed
    qed
  qed
qed

subsection \<open>Editing a sale onto another product\<close>

text \<open>
  C1. The sale of 5 units of A is edited to name B. The claim has A at 15 and B at
  20 minus the new quantity afterwards. With the quantity left at 5 the handler
  succeeds, the sale names B, and neither stock moves: the stock block is guarded by
  \<^verbatim>\<open>quantity_diff != 0\<close>. With the quantity raised to 8, A is restored to 15 and B
  is set to \<^verbatim>\<open>current_stock + quantity_diff\<close>, 17, where the claim has 12.
\<close>

theorem cross_product_edit_stock:
  "fst (update_sale no_others 1 1 (edit_of (Some ''B'') None None) conn0)
     = Inr (sale1\<lparr>s_productName := ''B''\<rparr>) \<and>
   products (db (snd (update_sale no_others 1 1 (edit_of (Some ''B'') None None) conn0)))
     = [prodA, prodB] \<and>
   fst (update_sale no_others 1 1 (edit_of (Some ''B'') (Some 8) None) conn0)
     = Inr (sale1\<lparr>s_productName := ''B'', s_quantity := 8\<rparr>) \<and>
   products (db (snd (update_sale no_others 1 1 (edit_of (Some ''B'') (Some 8) None) conn0)))
     = [prodA\<lparr>p_stock := 15, p_version := 2\<rparr>, prodB\<lparr>p_stock := 17, p_version := 2\<rparr>]"
  by code_simp

lemma restore_old_product_products:
  "products (db (snd (restore_old_product user_id (s_productName row) (s_quantity row) c)))
     = restored_products user_id row (db c)"
  by (simp add: restore_old_product_def restored_products_def Let_def case_prod_unfold
      update_stock_products split: option.splits)

lemma restore_old_product_saved [simp]:
  "saved (snd (restore_old_product user_id name q c)) = saved c"
  by (simp add: restore_old_product_def Let_def case_prod_unfold split: option.splits)

lemma restored_products_cong:
  "products d = products d' \<Longrightarrow> restored_products user_id row d = restored_products user_id row d'"
  by (simp add: restored_products_def select_product_by_name_def split: option.splits)

lemma update_sale_row_products [simp]:
  "products (db (update_sale_row sale_data sale_id user_id c)) = products (db c)"
  by (simp add: update_sale_row_def)

lemma update_sale_row_saved [simp]:
  "saved (update_sale_row sale_data sale_id user_id c) = saved c"
  by (simp add: update_sale_row_def)

lemma name_changed_fields: "name_changed sale_data old_name \<Longrightarrow> \<not> no_update_fields sale_data"
  by (auto simp: name_changed_def no_update_fields_def)

text \<open>
  C2, as the code has it. An edit changes the product name and the quantity, and the
  stock of the new product covers it. Inside one transaction the products table is
  first \<open>restored_products\<close> (the old product, if it still exists, restored by the old
  quantity under the version just read) and then the new product is set to its
  looked-up stock plus old minus new quantity, under the version read at lookup. If
  that second update matches no row, the call fails with VersionConflict and database
  and committed state are what the other connections left: the sale row and the old
  product are rolled back. Otherwise both updates and the sale row are committed
  together.
\<close>

theorem cross_product_edit_conflict:
  assumes row: "select_sale sale_id user_id (db conn) = Some row"
    and ch: "name_changed sale_data (s_productName row)"
    and np: "select_product_by_name user_id
               (new_product_name sale_data (s_productName row)) (db conn) = Some np"
    and q: "quantity_or_old sale_data (s_quantity row) \<noteq> s_quantity row"
    and suff: "0 \<le> p_stock np + (s_quantity row - quantity_or_old sale_data (s_quantity row))"
    and cust: "\<forall>k. su_customerId sale_data = Some k \<and> k \<noteq> 0
                 \<longrightarrow> customer_exists k user_id (db conn)"
    and clean: "saved conn = db conn"
  shows "(filter (stock_hit (p_id np) user_id (p_version np))
            (restored_products user_id row (others (db conn))) = [] \<longrightarrow>
            fst (update_sale others user_id sale_id sale_data conn) = Inl VersionConflict \<and>
            db (snd (update_sale others user_id sale_id sale_data conn)) = others (db conn) \<and>
            saved (snd (update_sale others user_id sale_id sale_data conn)) = others (db conn)) \<and>
         (filter (stock_hit (p_id np) user_id (p_version np))
            (restored_products user_id row (others (db conn))) \<noteq> [] \<longrightarrow>
            fst (update_sale others user_id sale_id sale_data conn) \<noteq> Inl VersionConflict \<and>
            products (db (snd (update_sale others user_id sale_id sale_data conn)))
              = set_stock (p_stock np + (s_quantity row - quantity_or_old sale_data (s_quantity row)))
                  (p_id np) user_id (p_version np)
                  (restored_products user_id row (others (db conn))) \<and>
            sales (db (snd (update_sale others user_id sale_id sale_data conn)))
              = sales (db (update_sale_row sale_data sale_id user_id (others_commit others conn))) \<and>
            saved (snd (update_sale others user_id sale_id sale_data conn))
              = db (snd (update_sale others user_id sale_id sale_data conn)))"
proof -
  define c1 where "c1 = others_commit others conn"
  define c2 where "c2 = update_sale_row sale_data sale_id user_id c1"
  define c3 where "c3 = snd (restore_old_product user_id (s_productName row) (s_quantity row) c2)"
  define new_stock where
    "new_stock = p_stock np + (s_quantity row - quantity_or_old sale_data (s_quantity row))"
  define u where "u = update_stock new_stock (p_id np) user_id (p_version np) c3"
  define R where "R = restored_products user_id row (others (db conn))"
  have p3: "products (db c3) = R"
    unfolding c3_def R_def restore_old_product_products
    by (rule restored_products_cong) (simp add: c2_def c1_def others_commit_def)
  have s3: "saved c3 = others (db conn)"
    by (simp add: c3_def c2_def c1_def others_commit_def clean)
  have n: "fst u = length (filter (stock_hit (p_id np) user_id (p_version np)) R)"
    by (simp add: u_def update_stock_rowcount p3)
  have pu: "products (db (snd u)) = set_stock new_stock (p_id np) user_id (p_version np) R"
    by (simp add: u_def update_stock_products p3)
  have su: "sales (db (snd u)) = sales (db c2)"
    by (simp add: u_def c3_def)
  have sv: "saved (snd u) = others (db conn)"
    by (simp add: u_def s3)
  have nf: "\<not> no_update_fields sale_data"
    using ch by (rule name_changed_fields)
  have txn: "update_sale_txn user_id sale_id sale_data row np c1 =
      (if fst u = 0 then (Some VersionConflict, rollback (snd u)) else (None, commit (snd u)))"
    by (cases rule: update_sale_txn_paths [of sale_data user_id sale_id row np c1])
       (use nf q suff ch in \<open>simp_all add: u_def c3_def c2_def new_stock_def\<close>)
  have upd: "update_sale others user_id sale_id sale_data conn =
      (if fst u = 0 then (Inl VersionConflict, rollback (snd u))
       else reload_sale sale_id (commit (snd u)))"
  proof (cases rule: update_sale_paths [of sale_id user_id conn others sale_data])
    case (insufficient row' np')
    then show ?thesis using row np suff by simp
  next
    case (no_customer row' np' k)
    then show ?thesis using cust by simp
  next
    case (txn_failed row' np' e c)
    then show ?thesis using row np txn by (simp add: c1_def split: if_splits)
  next
    case (txn_done row' np' c)
    then show ?thesis using row np txn by (simp add: c1_def split: if_splits)
  qed (use row np in simp_all)
  show ?thesis
  proof (intro conjI impI)
    assume z: "filter (stock_hit (p_id np) user_id (p_version np))
                 (restored_products user_id row (others (db conn))) = []"
    then have z0: "fst u = 0" by (simp add: n R_def)
    show "fst (update_sale others user_id sale_id sale_data conn) = Inl VersionConflict"
      by (simp add: upd z0)
    show "db (snd (update_sale others user_id sale_id sale_data conn)) = others (db conn)"
      by (simp add: upd z0 rollback_def sv)
    show "saved (snd (update_sale others user_id sale_id sale_data conn)) = others (db conn)"
      by (simp add: upd z0 rollback_def sv)
  next
    assume z: "filter (stock_hit (p_id np) user_id (p_version np))
                 (restored_products user_id row (others (db conn))) \<noteq> []"
    then have z1: "fst u \<noteq> 0" by (simp add: n R_def)
    show "fst (update_sale others user_id sale_id sale_data conn) \<noteq> Inl VersionConflict"
      by (simp add: upd z1 reload_sale_def split: option.splits)
    show "products (db (snd (update_sale others user_id sale_id sale_data conn)))
        = set_stock (p_stock np + (s_quantity row - quantity_or_old sale_data (s_quantity row)))
            (p_id np) user_id (p_version np) (restored_products user_id row (others (db conn)))"
      by (simp add: upd z1 commit_def pu new_stock_def R_def)
    show "sales (db (snd (update_sale others user_id sale_id sale_data conn)))
        = sales (db (update_sale_row sale_data sale_id user_id (others_commit others conn)))"
      by (simp add: upd z1 commit_def su c2_def c1_def)
    show "saved (snd (update_sale others user_id sale_id sale_data conn))
        = db (snd (update_sale others user_id sale_id sale_data conn))"
      by (simp add: upd z1 commit_def)
  qed
qed

theorem cross_product_edit_conflict_witness:
  "select_sale 1 1 (db conn0) = Some sale1 \<and>
   name_changed move_to_B (s_productName sale1) \<and>
   select_product_by_name 1 (new_product_name move_to_B (s_productName sale1)) (db conn0)
     = Some prodB \<and>
   quantity_or_old move_to_B (s_quantity sale1) \<noteq> s_quantity sale1 \<and>
   0 \<le> p_stock prodB + (s_quantity sale1 - quantity_or_old move_to_B (s_quantity sale1)) \<and>
   su_customerId move_to_B = None \<and>
   saved conn0 = db conn0 \<and>
   filter (stock_hit (p_id prodB) 1 (p_version prodB))
     (restored_products 1 sale1 (bump_B (db conn0))) = [] \<and>
   fst (update_sale bump_B 1 1 move_to_B conn0) = Inl VersionConflict \<and>
   db (snd (update_sale bump_B 1 1 move_to_B conn0)) = bump_B (db conn0) \<and>
   saved (snd (update_sale bump_B 1 1 move_to_B conn0)) = bump_B (db conn0) \<and>
   filter (stock_hit (p_id prodB) 1 (p_version prodB))
     (restored_products 1 sale1 (no_others (db conn0))) \<noteq> [] \<and>
   products (db (snd (update_sale no_others 1 1 move_to_B conn0)))
     = [prodA\<lparr>p_stock := 15, p_version := 2\<rparr>, prodB\<lparr>p_stock := 17, p_version := 2\<rparr>] \<and>
   saved (snd (update_sale no_others 1 1 move_to_B conn0))
     = db (snd (update_sale no_others 1 1 move_to_B conn0))"
proof -
  have h1: "select_sale 1 1 (db conn0) = Some sale1"
    by code_simp
  have h2: "name_changed move_to_B (s_productName sale1)"
    by code_simp
  have h3: "select_product_by_name 1 (new_product_name move_to_B (s_productName sale1)) (db conn0)
     = Some prodB"
    by code_simp
  have h4: "quantity_or_old move_to_B (s_quantity sale1) \<noteq> s_quantity sale1"
    by code_simp
  have h5: "0 \<le> p_stock prodB + (s_quantity sale1 - quantity_or_old move_to_B (s_quantity sale1))"
    by code_simp
  have h6': "su_customerId move_to_B = None"
    by code_simp
  then have h6: "\<forall>k. su_customerId move_to_B = Some k \<and> k \<noteq> 0 \<longrightarrow> customer_exists k 1 (db conn0)"
    by simp
  have h7: "saved conn0 = db conn0"
    by code_simp
  have f1: "filter (stock_hit (p_id prodB) 1 (p_version prodB))
     (restored_products 1 sale1 (bump_B (db conn0))) = []"
    by code_simp
  have f2: "filter (stock_hit (p_id prodB) 1 (p_version prodB))
     (restored_products 1 sale1 (no_others (db conn0))) \<noteq> []"
    by code_simp
  have v: "set_stock (p_stock prodB + (s_quantity sale1 - quantity_or_old move_to_B (s_quantity sale1)))
             (p_id prodB) 1 (p_version prodB) (restored_products 1 sale1 (no_others (db conn0)))
     = [prodA\<lparr>p_stock := 15, p_version := 2\<rparr>, prodB\<lparr>p_stock := 17, p_version := 2\<rparr>]"
    by code_simp
  note t1 = cross_product_edit_conflict [OF h1 h2 h3 h4 h5 h6 h7, of bump_B]
  note t2 = cross_product_edit_conflict [OF h1 h2 h3 h4 h5 h6 h7, of no_others]
  from t1 f1 have c1: "fst (update_sale bump_B 1 1 move_to_B conn0) = Inl VersionConflict \<and>
   db (snd (update_sale bump_B 1 1 move_to_B conn0)) = bump_B (db conn0) \<and>
   saved (snd (update_sale bump_B 1 1 move_to_B conn0)) = bump_B (db conn0)"
    by blast
  from t2 f2 v have c2: "products (db (snd (update_sale no_others 1 1 move_to_B conn0)))
     = [prodA\<lparr>p_stock := 15, p_version := 2\<rparr>, prodB\<lparr>p_stock := 17, p_version := 2\<rparr>] \<and>
   saved (snd (update_sale no_others 1 1 move_to_B conn0))
     = db (snd (update_sale no_others 1 1 move_to_B conn0))"
    by metis
  show ?thesis
    using h1 h2 h3 h4 h5 h6' h7 f1 f2 c1 c2 by blast
qed

text \<open>
  The claim has two conditional updates for every edit that changes the product name.
  When the product the sale named is gone, the guard \<^verbatim>\<open>if old_product:\<close> passes
  it over: the edit succeeds with two changed rows in all, the sale row and product B.
\<close>

theorem cross_product_edit_one_update_counterexample:
  "select_product_by_name 1 (s_productName sale1) (db conn_orphan) = None \<and>
   fst (update_sale no_others 1 1 move_to_B conn_orphan)
     = Inr (sale1\<lparr>s_productName := ''B'', s_quantity := 8\<rparr>) \<and>
   products (db (snd (update_sale no_others 1 1 move_to_B conn_orphan)))
     = [prodB\<lparr>p_stock := 17, p_version := 2\<rparr>] \<and>
   total_changes (snd (update_sale no_others 1 1 move_to_B conn_orphan))
     = total_changes conn_orphan + 2"
  by code_simp

subsection \<open>A sale created and deleted again\<close>

lemma fold_max_ge: "a \<le> fold max xs (a::int)"
proof (induction xs arbitrary: a)
  case Nil
  show ?case by simp
next
  case (Cons x xs)
  have "a \<le> max x a" by simp
  also have "max x a \<le> fold max xs (max x a)" by (rule Cons.IH)
  finally show ?case by simp
qed

lemma fold_max_upper: "x \<in> set xs \<Longrightarrow> x \<le> fold max xs (a::int)"
proof (induction xs arbitrary: a)
  case Nil
  then show ?case by simp
next
  case (Cons y ys)
  show ?case
  proof (cases "x = y")
    case True
    have "x \<le> max y a" using True by simp
    also have "max y a \<le> fold max ys (max y a)" by (rule fold_max_ge)
    finally show ?thesis by simp
  next
    case False
    with Cons.prems have "x \<in> set ys" by simp
    then show ?thesis using Cons.IH by simp
  qed
qed

lemma next_rowid_fresh: "x \<in> set ids \<Longrightarrow> x \<noteq> next_rowid ids"
  using fold_max_upper [of x ids 0] by (simp add: next_rowid_def)

lemma find_append_last:
  "\<forall>x \<in> set xs. \<not> P x \<Longrightarrow> P r \<Longrightarrow> find P (xs @ [r]) = Some r"
  by (induction xs) auto

lemma filter_append_last:
  "\<forall>x \<in> set xs. P x \<Longrightarrow> \<not> P r \<Longrightarrow> filter P (xs @ [r]) = xs"
  by (induction xs) auto

lemma find_map_same:
  "(\<And>x. P (f x) = P x) \<Longrightarrow> find P (map f xs) = map_option f (find P xs)"
  by (induction xs) auto

lemma insert_sale_id: "fst (insert_sale row c) = next_rowid (map s_id (sales (db c)))"
  by (simp add: insert_sale_def Let_def)

lemma insert_sale_sales:
  "sales (db (snd (insert_sale row c)))
     = sales (db c) @ [row\<lparr>s_id := next_rowid (map s_id (sales (db c)))\<rparr>]"
  by (simp add: insert_sale_def Let_def)

lemma insert_sale_products [simp]:
  "products (db (snd (insert_sale row c))) = products (db c)"
  by (simp add: insert_sale_def Let_def)

text \<open>What a successful \<open>create_sale\<close> read and what it left behind.\<close>

lemma create_sale_done:
  assumes "create_sale others user_id sale_data conn = (Inr s, conn1)"
  obtains p where
    "select_product_by_name user_id (sc_productName sale_data) (db conn) = Some p"
    "sc_quantity sale_data \<le> p_stock p"
    "products (db conn1)
       = set_stock (p_stock p - sc_quantity sale_data) (p_id p) user_id (p_version p)
           (products (others (db conn)))"
    "sales (db conn1) = sales (others (db conn)) @
       [\<lparr>s_id = next_rowid (map s_id (sales (others (db conn)))), s_userId = user_id,
         s_productName = sc_productName sale_data, s_quantity = sc_quantity sale_data,
         s_customerId = sc_customerId sale_data, s_saleDate = sc_saleDate sale_data,
         s_totalSalePrice = sc_totalSalePrice sale_data, s_note = sc_note sale_data\<rparr>]"
    "s_id s = next_rowid (map s_id (sales (others (db conn))))"
    "saved conn1 = db conn1"
proof (cases "select_product_by_name user_id (sc_productName sale_data) (db conn)")
  case None
  with assms show thesis by (simp add: create_sale_def)
next
  case (Some p)
  define row where "row = \<lparr>s_id = 0, s_userId = user_id,
         s_productName = sc_productName sale_data, s_quantity = sc_quantity sale_data,
         s_customerId = sc_customerId sale_data, s_saleDate = sc_saleDate sale_data,
         s_totalSalePrice = sc_totalSalePrice sale_data, s_note = sc_note sale_data\<rparr>"
  define c2 where "c2 = snd (insert_sale row (others_commit others conn))"
  define i where "i = fst (insert_sale row (others_commit others conn))"
  define u where "u = update_stock (p_stock p - sc_quantity sale_data) (p_id p) user_id
                        (p_version p) c2"
  have cs: "create_sale others user_id sale_data conn =
      (if p_stock p < sc_quantity sale_data then (Inl InsufficientStock, conn)
       else if (case sc_customerId sale_data of None \<Rightarrow> False
                | Some cid \<Rightarrow> \<not> customer_exists cid user_id (db conn))
       then (Inl (InvalidReference RefCustomer), conn)
       else if p_stock p - sc_quantity sale_data < 0 then (Inl InsufficientStock, rollback c2)
       else if fst u = 0 then (Inl VersionConflict, rollback (snd u))
       else (case select_sale_by_id i (db (commit (snd u))) of
               None \<Rightarrow> (Inl Unexpected, commit (snd u))
             | Some r \<Rightarrow> (Inr r, commit (snd u))))"
    unfolding create_sale_def Let_def row_def [symmetric] u_def c2_def i_def
    by (simp add: Some case_prod_unfold)
  from assms cs have q: "sc_quantity sale_data \<le> p_stock p"
    by (simp split: if_splits)
  from assms cs have c1: "conn1 = commit (snd u)"
    and r: "select_sale_by_id i (db (commit (snd u))) = Some s"
    by (simp_all split: if_splits option.splits)
  have ps: "products (db conn1)
       = set_stock (p_stock p - sc_quantity sale_data) (p_id p) user_id (p_version p)
           (products (others (db conn)))"
    by (simp add: c1 commit_def u_def update_stock_products c2_def others_commit_def)
  have ss: "sales (db conn1) = sales (others (db conn)) @
       [row\<lparr>s_id := next_rowid (map s_id (sales (others (db conn))))\<rparr>]"
    by (simp add: c1 commit_def u_def c2_def insert_sale_sales others_commit_def)
  have ii: "i = next_rowid (map s_id (sales (others (db conn))))"
    by (simp add: i_def insert_sale_id others_commit_def)
  from r have "s_id s = i"
    unfolding select_sale_by_id_def by (auto dest: find_Some_hit)
  then have si: "s_id s = next_rowid (map s_id (sales (others (db conn))))"
    by (simp add: ii)
  have sv: "saved conn1 = db conn1"
    by (simp add: c1 commit_def)
  show thesis
    using that [OF Some q ps _ si sv] ss by (simp add: row_def)
qed

lemma set_stock_round_trip:
  assumes d: "distinct (map p_id rows)" and p: "p \<in> set rows"
  shows "map p_stock
           (set_stock (p_stock p - q + q) (p_id p) uid (p_version p + 1)
              (set_stock (p_stock p - q) (p_id p) uid (p_version p) rows))
         = map p_stock rows"
proof -
  define f where "f = (\<lambda>x. if stock_hit (p_id p) uid (p_version p) x
                           then x\<lparr>p_stock := p_stock p - q, p_version := p_version x + 1\<rparr>
                           else x)"
  define g where "g = (\<lambda>x. if stock_hit (p_id p) uid (p_version p + 1) x
                           then x\<lparr>p_stock := p_stock p - q + q, p_version := p_version x + 1\<rparr>
                           else x)"
  have e: "set_stock (p_stock p - q + q) (p_id p) uid (p_version p + 1)
              (set_stock (p_stock p - q) (p_id p) uid (p_version p) rows) = map g (map f rows)"
    by (simp add: set_stock_def f_def g_def)
  have same: "x = p" if "x \<in> set rows" "p_id x = p_id p" for x
    using d p that by (auto simp: distinct_map dest: inj_onD)
  have k: "p_stock (g (f x)) = p_stock x" if x: "x \<in> set rows" for x
  proof (cases "p_id x = p_id p")
    case True
    then have "x = p" using same x by simp
    then show ?thesis by (simp add: f_def g_def stock_hit_def)
  next
    case False
    then show ?thesis by (simp add: f_def g_def stock_hit_def)
  qed
  show ?thesis
    unfolding e by (simp add: k)
qed

text \<open>
  C7. Product ids are the primary key of the table. When \<open>create_sale\<close> succeeds
  and \<open>delete_sale\<close> of the sale it returned follows with nothing in between, the
  deletion succeeds, every product has the stock it had before the sale was created,
  and the sales table is what it was.
\<close>

theorem create_then_delete_restores_stock:
  assumes d: "distinct (map p_id (products (db conn)))"
    and c: "create_sale (\<lambda>d. d) user_id sale_data conn = (Inr s, conn1)"
  shows "fst (delete_sale (\<lambda>d. d) user_id (s_id s) conn1) = Inr () \<and>
         map p_stock (products (db (snd (delete_sale (\<lambda>d. d) user_id (s_id s) conn1))))
           = map p_stock (products (db conn)) \<and>
         sales (db (snd (delete_sale (\<lambda>d. d) user_id (s_id s) conn1))) = sales (db conn)"
proof -
  define row where "row = \<lparr>s_id = s_id s, s_userId = user_id,
         s_productName = sc_productName sale_data, s_quantity = sc_quantity sale_data,
         s_customerId = sc_customerId sale_data, s_saleDate = sc_saleDate sale_data,
         s_totalSalePrice = sc_totalSalePrice sale_data, s_note = sc_note sale_data\<rparr>"
  from c obtain p where
    sel: "select_product_by_name user_id (sc_productName sale_data) (db conn) = Some p"
    and ps: "products (db conn1)
       = set_stock (p_stock p - sc_quantity sale_data) (p_id p) user_id (p_version p)
           (products (db conn))"
    and ss: "sales (db conn1) = sales (db conn) @ [row]"
    and si: "s_id s = next_rowid (map s_id (sales (db conn)))"
    by (rule create_sale_done) (simp add: row_def)
  define p' where "p' = p\<lparr>p_stock := p_stock p - sc_quantity sale_data,
                           p_version := p_version p + 1\<rparr>"
  from sel have pin: "p \<in> set (products (db conn))"
    and pu: "p_userId p = user_id" and pn: "p_name p = sc_productName sale_data"
    unfolding select_product_by_name_def by (auto dest: find_Some_hit)
  have fresh: "\<forall>x \<in> set (sales (db conn)). \<not> (s_id x = s_id s \<and> s_userId x = user_id)"
    using next_rowid_fresh [of _ "map s_id (sales (db conn))"] si by auto
  have sale: "select_sale (s_id s) user_id (db conn1) = Some row"
    unfolding select_sale_def ss
    by (rule find_append_last [OF fresh]) (simp add: row_def)
  have "select_product_by_name user_id (sc_productName sale_data) (db conn1)
      = map_option (\<lambda>x. if stock_hit (p_id p) user_id (p_version p) x
               then x\<lparr>p_stock := p_stock p - sc_quantity sale_data, p_version := p_version x + 1\<rparr>
               else x) (select_product_by_name user_id (sc_productName sale_data) (db conn))"
    unfolding select_product_by_name_def ps set_stock_def
    by (rule find_map_same) simp
  then have prod: "select_product_by_name user_id (sc_productName sale_data) (db conn1) = Some p'"
    by (simp add: sel p'_def stock_hit_def pu)
  have p'in: "p' \<in> set (products (db conn1))"
    using prod unfolding select_product_by_name_def by (auto dest: find_Some_hit)
  define u where "u = update_stock (p_stock p' + s_quantity row) (p_id p') user_id
                        (p_version p') conn1"
  have n: "fst u \<noteq> 0"
    unfolding u_def update_stock_rowcount
    by (rule filter_hit_nonempty [OF p'in]) (simp add: stock_hit_def p'_def pu)
  have oc: "others_commit (\<lambda>d. d) conn1 = conn1"
    by (simp add: others_commit_def)
  have del: "delete_sale (\<lambda>d. d) user_id (s_id s) conn1
      = (Inr (), commit (delete_sale_row (s_id s) user_id (snd u)))"
    using n
    by (simp add: delete_sale_def sale Let_def oc case_prod_unfold u_def row_def prod [unfolded row_def])
  have pr: "products (db (snd u))
      = set_stock (p_stock p - sc_quantity sale_data + sc_quantity sale_data) (p_id p) user_id
          (p_version p + 1)
          (set_stock (p_stock p - sc_quantity sale_data) (p_id p) user_id (p_version p)
             (products (db conn)))"
    by (simp add: u_def update_stock_products ps p'_def row_def)
  have su: "sales (db (snd u)) = sales (db conn) @ [row]"
    by (simp add: u_def ss)
  show ?thesis
  proof (intro conjI)
    show "fst (delete_sale (\<lambda>d. d) user_id (s_id s) conn1) = Inr ()"
      by (simp add: del)
    show "map p_stock (products (db (snd (delete_sale (\<lambda>d. d) user_id (s_id s) conn1))))
           = map p_stock (products (db conn))"
      using set_stock_round_trip [OF d pin, of "sc_quantity sale_data" user_id]
      by (simp add: del commit_def delete_sale_row_def pr)
    have "filter (\<lambda>x. \<not> (s_id x = s_id s \<and> s_userId x = user_id)) (sales (db conn) @ [row])
            = sales (db conn)"
      by (rule filter_append_last) (use fresh in \<open>simp_all add: row_def\<close>)
    then show "sales (db (snd (delete_sale (\<lambda>d. d) user_id (s_id s) conn1))) = sales (db conn)"
      by (simp add: del commit_def delete_sale_row_def su)
  qed
qed

theorem create_then_delete_restores_stock_witness:
  "distinct (map p_id (products (db conn0))) \<and>
   fst (create_sale (\<lambda>d. d) 1 (sale_of ''A'' 5) conn0) = Inr (sale1\<lparr>s_id := 2\<rparr>) \<and>
   fst (delete_sale (\<lambda>d. d) 1 2 (snd (create_sale (\<lambda>d. d) 1 (sale_of ''A'' 5) conn0))) = Inr () \<and>
   map p_stock (products (db (snd (delete_sale (\<lambda>d. d) 1 2
        (snd (create_sale (\<lambda>d. d) 1 (sale_of ''A'' 5) conn0))))))
     = map p_stock (products (db conn0)) \<and>
   map p_stock (products (db (snd (create_sale (\<lambda>d. d) 1 (sale_of ''A'' 5) conn0)))) = [5, 20]"
proof -
  have d: "distinct (map p_id (products (db conn0)))"
    by code_simp
  have a: "fst (create_sale (\<lambda>d. d) 1 (sale_of ''A'' 5) conn0) = Inr (sale1\<lparr>s_id := 2\<rparr>)"
    by code_simp
  then have c: "create_sale (\<lambda>d. d) 1 (sale_of ''A'' 5) conn0
      = (Inr (sale1\<lparr>s_id := 2\<rparr>), snd (create_sale (\<lambda>d. d) 1 (sale_of ''A'' 5) conn0))"
    by (simp add: prod_eq_iff)
  have i: "s_id (sale1\<lparr>s_id := 2\<rparr>) = 2"
    by simp
  have b: "map p_stock (products (db (snd (create_sale (\<lambda>d. d) 1 (sale_of ''A'' 5) conn0))))
      = [5, 20]"
    by code_simp
  show ?thesis
    using d a b create_then_delete_restores_stock [OF d c] by (simp add: i)
qed

subsection \<open>The handlers as chains of tests\<close>

lemma create_sale_unfold:
  assumes "select_product_by_name user_id (sc_productName sale_data) (db conn) = Some p"
  shows "create_sale others user_id sale_data conn =
      (if p_stock p < sc_quantity sale_data then (Inl InsufficientStock, conn)
       else if (case sc_customerId sale_data of None \<Rightarrow> False
                | Some cid \<Rightarrow> \<not> customer_exists cid user_id (db conn))
       then (Inl (InvalidReference RefCustomer), conn)
       else
         if fst (update_stock (p_stock p - sc_quantity sale_data) (p_id p) user_id (p_version p)
                  (snd (insert_sale
                     \<lparr>s_id = 0, s_userId = user_id,
                      s_productName = sc_productName sale_data,
                      s_quantity = sc_quantity sale_data,
                      s_customerId = sc_customerId sale_data,
                      s_saleDate = sc_saleDate sale_data,
                      s_totalSalePrice = sc_totalSalePrice sale_data,
                      s_note = sc_note sale_data\<rparr> (others_commit others conn)))) = 0
         then (Inl VersionConflict,
               rollback (snd (update_stock (p_stock p - sc_quantity sale_data) (p_id p) user_id
                  (p_version p)
                  (snd (insert_sale
                     \<lparr>s_id = 0, s_userId = user_id,
                      s_productName = sc_productName sale_data,
                      s_quantity = sc_quantity sale_data,
                      s_customerId = sc_customerId sale_data,
                      s_saleDate = sc_saleDate sale_data,
                      s_totalSalePrice = sc_totalSalePrice sale_data,
                      s_note = sc_note sale_data\<rparr> (others_commit others conn))))))
         else reload_sale
               (fst (insert_sale
                     \<lparr>s_id = 0, s_userId = user_id,
                      s_productName = sc_productName sale_data,
                      s_quantity = sc_quantity sale_data,
                      s_customerId = sc_customerId sale_data,
                      s_saleDate = sc_saleDate sale_data,
                      s_totalSalePrice = sc_totalSalePrice sale_data,
                      s_note = sc_note sale_data\<rparr> (others_commit others conn)))
               (commit (snd (update_stock (p_stock p - sc_quantity sale_data) (p_id p) user_id
                  (p_version p)
                  (snd (insert_sale
                     \<lparr>s_id = 0, s_userId = user_id,
                      s_productName = sc_productName sale_data,
                      s_quantity = sc_quantity sale_data,
                      s_customerId = sc_customerId sale_data,
                      s_saleDate = sc_saleDate sale_data,
                      s_totalSalePrice = sc_totalSalePrice sale_data,
                      s_note = sc_note sale_data\<rparr> (others_commit others conn)))))))"
  unfolding create_sale_def Let_def reload_sale_def
  by (simp add: assms case_prod_unfold)

lemma delete_sale_unfold:
  assumes "select_sale sale_id user_id (db conn) = Some sale"
  shows "delete_sale others user_id sale_id conn =
      (case select_product_by_name user_id (s_productName sale) (db conn) of
         None \<Rightarrow> (Inr (), commit (delete_sale_row sale_id user_id (others_commit others conn)))
       | Some product \<Rightarrow>
           if fst (update_stock (p_stock product + s_quantity sale) (p_id product) user_id
                     (p_version product) (others_commit others conn)) = 0
           then (Inl VersionConflict,
                 rollback (snd (update_stock (p_stock product + s_quantity sale) (p_id product)
                    user_id (p_version product) (others_commit others conn))))
           else (Inr (),
                 commit (delete_sale_row sale_id user_id
                   (snd (update_stock (p_stock product + s_quantity sale) (p_id product)
                      user_id (p_version product) (others_commit others conn))))))"
  unfolding delete_sale_def Let_def
  by (simp add: assms case_prod_unfold split: option.splits)

lemma update_product_stock_unfold:
  assumes "select_product product_id user_id (db conn) = Some row"
  shows "update_product_stock others user_id product_id stock_data conn =
      (if ps_version stock_data \<noteq> version_or_1 (p_version row) then (Inl VersionConflict, conn)
       else if p_stock row + ps_quantity stock_data < 0 then (Inl InsufficientStock, conn)
       else if total_changes (snd (update_stock (p_stock row + ps_quantity stock_data) product_id
                 user_id (version_or_1 (p_version row)) (others_commit others conn))) = 0
       then (Inl VersionConflict,
             snd (update_stock (p_stock row + ps_quantity stock_data) product_id
                 user_id (version_or_1 (p_version row)) (others_commit others conn)))
       else (case select_product_by_id product_id
                   (db (commit (snd (update_stock (p_stock row + ps_quantity stock_data)
                      product_id user_id (version_or_1 (p_version row))
                      (others_commit others conn))))) of
               None \<Rightarrow> (Inl Unexpected,
                   commit (snd (update_stock (p_stock row + ps_quantity stock_data)
                      product_id user_id (version_or_1 (p_version row))
                      (others_commit others conn))))
             | Some r \<Rightarrow> (Inr (ProductResponse r),
                   commit (snd (update_stock (p_stock row + ps_quantity stock_data)
                      product_id user_id (version_or_1 (p_version row))
                      (others_commit others conn))))))"
  unfolding update_product_stock_def Let_def
  by (simp add: assms case_prod_unfold)

lemma update_product_conn:
  "snd (update_product others user_id product_id product_data conn) = conn \<or>
   snd (update_product others user_id product_id product_data conn)
     = commit (update_product_row product_data product_id user_id (others_commit others conn))"
  unfolding update_product_def Let_def
  by (simp split: option.splits)

lemma create_product_conn:
  "snd (create_product user_id product_data conn) = conn \<or>
   snd (create_product user_id product_data conn)
     = commit (snd (insert_product
                   \<lparr>p_id = 0, p_userId = user_id,
                    p_name = pc_name product_data,
                    p_description = pc_description product_data,
                    p_stock = pc_stock product_data,
                    p_unit = pc_unit product_data,
                    p_supplierId = pc_supplierId product_data,
                    p_version = 1\<rparr> conn))"
  unfolding create_product_def Let_def
  by (simp add: case_prod_unfold split: option.splits)

lemma delete_product_conn:
  "snd (delete_product user_id product_id conn) = conn \<or>
   snd (delete_product user_id product_id conn)
     = commit (delete_product_row product_id user_id conn)"
  unfolding delete_product_def Let_def
  by (simp split: option.splits)

subsection \<open>Which writes of stock are conditioned on the version\<close>

lemma set_stock_no_hit:
  "filter (stock_hit product_id user_id version) rows = [] \<Longrightarrow>
   set_stock new_stock product_id user_id version rows = rows"
  by (induction rows) (auto simp: set_stock_def split: if_splits)

lemma insert_sale_saved [simp]: "saved (snd (insert_sale row c)) = saved c"
  by (simp add: insert_sale_def Let_def)

lemma others_commit_db [simp]: "db (others_commit others c) = others (db c)"
  by (simp add: others_commit_def)

lemma others_commit_saved [simp]: "saved (others_commit others c) = others (saved c)"
  by (simp add: others_commit_def)

lemma rollback_db [simp]: "db (rollback c) = saved c"
  by (simp add: rollback_def)

lemma commit_db [simp]: "db (commit c) = db c"
  by (simp add: commit_def)

lemma create_sale_no_hit:
  assumes clean: "saved conn = db conn"
    and sel: "select_product_by_name user_id (sc_productName sale_data) (db conn) = Some p"
    and miss: "filter (stock_hit (p_id p) user_id (p_version p)) (products (others (db conn))) = []"
  shows "products (db (snd (create_sale others user_id sale_data conn)))
           \<in> {products (db conn), products (others (db conn))}"
  unfolding create_sale_unfold [OF sel]
  by (simp add: update_stock_rowcount miss clean)

lemma delete_sale_no_hit:
  assumes clean: "saved conn = db conn"
    and sale: "select_sale sale_id user_id (db conn) = Some sale"
    and sel: "select_product_by_name user_id (s_productName sale) (db conn) = Some pr"
    and miss: "filter (stock_hit (p_id pr) user_id (p_version pr)) (products (others (db conn))) = []"
  shows "products (db (snd (delete_sale others user_id sale_id conn)))
           \<in> {products (db conn), products (others (db conn))}"
  unfolding delete_sale_unfold [OF sale]
  by (simp add: sel update_stock_rowcount miss clean)

lemma update_product_stock_no_hit:
  assumes sel: "select_product product_id user_id (db conn) = Some row"
    and miss: "filter (stock_hit product_id user_id (version_or_1 (p_version row)))
                 (products (others (db conn))) = []"
  shows "products (db (snd (update_product_stock others user_id product_id stock_data conn)))
           \<in> {products (db conn), products (others (db conn))}"
  unfolding update_product_stock_unfold [OF sel]
  by (simp add: update_stock_products set_stock_no_hit [OF miss] split: option.splits)

lemma update_sale_no_hit:
  assumes clean: "saved conn = db conn"
    and row: "select_sale sale_id user_id (db conn) = Some row"
    and np: "select_product_by_name user_id
               (new_product_name sale_data (s_productName row)) (db conn) = Some np"
    and miss: "filter (stock_hit (p_id np) user_id (p_version np))
                 (if name_changed sale_data (s_productName row)
                  then restored_products user_id row (others (db conn))
                  else products (others (db conn))) = []"
  shows "products (db (snd (update_sale others user_id sale_id sale_data conn)))
           \<in> {products (db conn), products (others (db conn))}"
proof -
  define c1 where "c1 = others_commit others conn"
  define c2 where "c2 = update_sale_row sale_data sale_id user_id c1"
  define c3 where "c3 = (if name_changed sale_data (s_productName row)
                   then snd (restore_old_product user_id (s_productName row) (s_quantity row) c2)
                   else c2)"
  define u where "u = update_stock
      (p_stock np + (s_quantity row - quantity_or_old sale_data (s_quantity row)))
      (p_id np) user_id (p_version np) c3"
  have p3: "products (db c3) = (if name_changed sale_data (s_productName row)
                  then restored_products user_id row (others (db conn))
                  else products (others (db conn)))"
    unfolding c3_def
    by (simp add: restore_old_product_products c2_def c1_def
        restored_products_cong [of "db (update_sale_row sale_data sale_id user_id
                                          (others_commit others conn))" "others (db conn)"])
  have u0: "fst u = 0"
    by (simp add: u_def update_stock_rowcount p3 miss)
  have s1: "saved c1 = others (db conn)"
    by (simp add: c1_def clean)
  have s2: "saved c2 = others (db conn)"
    by (simp add: c2_def s1)
  have s3: "saved c3 = others (db conn)"
    by (simp add: c3_def s2)
  have su: "saved (snd u) = others (db conn)"
    by (simp add: u_def s3)
  have pc2: "products (db c2) = products (others (db conn))"
    by (simp add: c2_def c1_def)
  have txn: "products (db (snd (update_sale_txn user_id sale_id sale_data row np c1)))
               = products (others (db conn))"
  proof (cases rule: update_sale_txn_paths [of sale_data user_id sale_id row np c1])
    case no_fields
    then show ?thesis by (simp add: s1)
  next
    case same_quantity
    then have "update_sale_txn user_id sale_id sale_data row np c1 = (None, commit c2)"
      by (simp add: c2_def)
    then show ?thesis by (simp add: pc2)
  next
    case negative
    then have "update_sale_txn user_id sale_id sale_data row np c1
                 = (Some InsufficientStock, rollback c2)"
      by (simp add: c2_def)
    then show ?thesis by (simp add: s2)
  next
    case new_conflict
    have "update_sale_txn user_id sale_id sale_data row np c1
                 = (Some VersionConflict, rollback (snd u))"
      unfolding u_def c3_def c2_def by (rule new_conflict(5))
    then show ?thesis by (simp add: su)
  next
    case moved
    have "fst u \<noteq> 0"
      unfolding u_def c3_def c2_def by (rule moved(4))
    with u0 show ?thesis by simp
  qed
  show ?thesis
  proof (cases rule: update_sale_paths [of sale_id user_id conn others sale_data])
    case (txn_failed row' np' e c)
    then have "c = snd (update_sale_txn user_id sale_id sale_data row np c1)"
      using row np by (simp add: c1_def)
    then show ?thesis using txn txn_failed by simp
  next
    case (txn_done row' np' c)
    then have "c = snd (update_sale_txn user_id sale_id sale_data row np c1)"
      using row np by (simp add: c1_def)
    then show ?thesis using txn txn_done by simp
  qed simp_all
qed

lemma update_product_stale:
  assumes "select_product product_id user_id (db conn) = Some row"
    and "pu_version product_data = Some v" and "v \<noteq> version_or_1 (p_version row)"
  shows "update_product others user_id product_id product_data conn = (Inl VersionConflict, conn)"
  using assms by (simp add: update_product_def Let_def)

lemma update_product_unversioned:
  assumes "select_product product_id user_id (db conn) = Some row"
    and "pu_version product_data = None"
    and "\<not> (case pu_name product_data of
               None \<Rightarrow> False
             | Some n \<Rightarrow> n \<noteq> [] \<and> n \<noteq> p_name row \<and>
                 find (\<lambda>p. p_userId p = user_id \<and> p_name p = n \<and> p_id p \<noteq> product_id)
                   (products (db conn)) \<noteq> None)"
    and "\<not> (case pu_supplierId product_data of
               None \<Rightarrow> False
             | Some k \<Rightarrow> Some k \<noteq> p_supplierId row \<and> k \<noteq> 0 \<and>
                 \<not> supplier_exists k user_id (db conn))"
    and "\<not> no_product_fields product_data"
  shows "snd (update_product others user_id product_id product_data conn)
           = commit (update_product_row product_data product_id user_id
                       (others_commit others conn))"
proof -
  have "update_product others user_id product_id product_data conn =
      (case select_product_by_id product_id
              (db (commit (update_product_row product_data product_id user_id
                             (others_commit others conn)))) of
         None \<Rightarrow> (Inl Unexpected, commit (update_product_row product_data product_id user_id
                                            (others_commit others conn)))
       | Some r \<Rightarrow> (Inr (ProductResponse r),
                    commit (update_product_row product_data product_id user_id
                              (others_commit others conn))))"
    unfolding update_product_def Let_def
    using assms(3,4,5) by (simp only: assms(1,2) option.case if_False)
  then show ?thesis
    by (simp split: option.splits)
qed

lemma update_product_row_products:
  "products (db (commit (update_product_row product_data product_id user_id c)))
     = map (\<lambda>p. if p_id p = product_id \<and> p_userId p = user_id
                 then set_product_fields product_data p else p) (products (db c))"
  by (simp add: update_product_row_def)

lemma set_product_fields_stock:
  "pu_stock product_data = Some q \<Longrightarrow>
   p_stock (set_product_fields product_data p) = q \<and>
   p_version (set_product_fields product_data p) = p_version p + 1"
  by (simp add: set_product_fields_def)

lemma set_product_fields_version:
  "p_version (set_product_fields product_data p) = p_version p + 1"
  by (simp add: set_product_fields_def)

text \<open>
  C6, as the code has it. The four stock paths write stock with the statement
  \<open>update_stock\<close> alone: when, at the time of the write, no product row carries the
  id, owner and version the handler has read, the products table after
  \<open>create_sale\<close>, \<open>delete_sale\<close>, \<open>update_product_stock\<close> and \<open>update_sale\<close> is the
  table before the call or the table the other connections left. The general update
  \<open>update_product\<close> may assign stock as well. With an expected version that differs
  from the version of the row it has read, it answers VersionConflict and hands the
  connection back as it was. With no expected version, once the product is found, the
  name and the supplier pass their tests and a field is supplied, the update is written
  and committed: every row with the id and owner in the table the other connections
  left gets the fields of the request, the stock among them when it is supplied, and
  the next version, whatever version it carries.
\<close>

theorem stock_writes_version_conditioned:
  assumes clean: "saved conn = db conn"
  shows "(select_product_by_name user_id (sc_productName new_sale) (db conn) = Some p \<and>
          filter (stock_hit (p_id p) user_id (p_version p)) (products (others (db conn))) = []
          \<longrightarrow> products (db (snd (create_sale others user_id new_sale conn)))
                \<in> {products (db conn), products (others (db conn))}) \<and>
         (select_sale sale_id user_id (db conn) = Some sale \<and>
          select_product_by_name user_id (s_productName sale) (db conn) = Some pr \<and>
          filter (stock_hit (p_id pr) user_id (p_version pr)) (products (others (db conn))) = []
          \<longrightarrow> products (db (snd (delete_sale others user_id sale_id conn)))
                \<in> {products (db conn), products (others (db conn))}) \<and>
         (select_product product_id user_id (db conn) = Some row \<and>
          filter (stock_hit product_id user_id (version_or_1 (p_version row)))
            (products (others (db conn))) = []
          \<longrightarrow> products (db (snd (update_product_stock others user_id product_id stock_data conn)))
                \<in> {products (db conn), products (others (db conn))}) \<and>
         (select_sale sale_id user_id (db conn) = Some sale \<and>
          select_product_by_name user_id
            (new_product_name sale_data (s_productName sale)) (db conn) = Some np \<and>
          filter (stock_hit (p_id np) user_id (p_version np))
            (if name_changed sale_data (s_productName sale)
             then restored_products user_id sale (others (db conn))
             else products (others (db conn))) = []
          \<longrightarrow> products (db (snd (update_sale others user_id sale_id sale_data conn)))
                \<in> {products (db conn), products (others (db conn))}) \<and>
         (select_product product_id user_id (db conn) = Some row \<and>
          pu_version product_data = Some v \<and> v \<noteq> version_or_1 (p_version row)
          \<longrightarrow> update_product others user_id product_id product_data conn
                = (Inl VersionConflict, conn)) \<and>
         (select_product product_id user_id (db conn) = Some row \<and>
          pu_version product_data = None \<and>
          \<not> (case pu_name product_data of
                None \<Rightarrow> False
              | Some n \<Rightarrow> n \<noteq> [] \<and> n \<noteq> p_name row \<and>
                  find (\<lambda>p. p_userId p = user_id \<and> p_name p = n \<and> p_id p \<noteq> product_id)
                    (products (db conn)) \<noteq> None) \<and>
          \<not> (case pu_supplierId product_data of
                None \<Rightarrow> False
              | Some k \<Rightarrow> Some k \<noteq> p_supplierId row \<and> k \<noteq> 0 \<and>
                  \<not> supplier_exists k user_id (db conn)) \<and>
          \<not> no_product_fields product_data
          \<longrightarrow> products (db (snd (update_product others user_id product_id product_data conn)))
                = map (\<lambda>p. if p_id p = product_id \<and> p_userId p = user_id
                            then set_product_fields product_data p else p)
                    (products (others (db conn))) \<and>
              saved (snd (update_product others user_id product_id product_data conn))
                = db (snd (update_product others user_id product_id product_data conn)) \<and>
              p_version (set_product_fields product_data x) = p_version x + 1 \<and>
              (pu_stock product_data = Some q \<longrightarrow>
                 p_stock (set_product_fields product_data x) = q))"
proof (intro conjI impI allI)
  assume "select_product_by_name user_id (sc_productName new_sale) (db conn) = Some p \<and>
          filter (stock_hit (p_id p) user_id (p_version p)) (products (others (db conn))) = []"
  then show "products (db (snd (create_sale others user_id new_sale conn)))
                \<in> {products (db conn), products (others (db conn))}"
    using create_sale_no_hit [OF clean, of user_id new_sale p others] by blast
next
  assume "select_sale sale_id user_id (db conn) = Some sale \<and>
          select_product_by_name user_id (s_productName sale) (db conn) = Some pr \<and>
          filter (stock_hit (p_id pr) user_id (p_version pr)) (products (others (db conn))) = []"
  then show "products (db (snd (delete_sale others user_id sale_id conn)))
                \<in> {products (db conn), products (others (db conn))}"
    using delete_sale_no_hit [OF clean, of sale_id user_id sale pr others] by blast
next
  assume "select_product product_id user_id (db conn) = Some row \<and>
          filter (stock_hit product_id user_id (version_or_1 (p_version row)))
            (products (others (db conn))) = []"
  then show "products (db (snd (update_product_stock others user_id product_id stock_data conn)))
                \<in> {products (db conn), products (others (db conn))}"
    using update_product_stock_no_hit [of product_id user_id conn row others stock_data] by blast
next
  assume "select_sale sale_id user_id (db conn) = Some sale \<and>
          select_product_by_name user_id
            (new_product_name sale_data (s_productName sale)) (db conn) = Some np \<and>
          filter (stock_hit (p_id np) user_id (p_version np))
            (if name_changed sale_data (s_productName sale)
             then restored_products user_id sale (others (db conn))
             else products (others (db conn))) = []"
  then show "products (db (snd (update_sale others user_id sale_id sale_data conn)))
                \<in> {products (db conn), products (others (db conn))}"
    using update_sale_no_hit [OF clean, of sale_id user_id sale sale_data np others] by blast
next
  assume "select_product product_id user_id (db conn) = Some row \<and>
          pu_version product_data = Some v \<and> v \<noteq> version_or_1 (p_version row)"
  then show "update_product others user_id product_id product_data conn
                = (Inl VersionConflict, conn)"
    using update_product_stale by blast
next
  assume h: "select_product product_id user_id (db conn) = Some row \<and>
          pu_version product_data = None \<and>
          \<not> (case pu_name product_data of
                None \<Rightarrow> False
              | Some n \<Rightarrow> n \<noteq> [] \<and> n \<noteq> p_name row \<and>
                  find (\<lambda>p. p_userId p = user_id \<and> p_name p = n \<and> p_id p \<noteq> product_id)
                    (products (db conn)) \<noteq> None) \<and>
          \<not> (case pu_supplierId product_data of
                None \<Rightarrow> False
              | Some k \<Rightarrow> Some k \<noteq> p_supplierId row \<and> k \<noteq> 0 \<and>
                  \<not> supplier_exists k user_id (db conn)) \<and>
          \<not> no_product_fields product_data"
  have e: "snd (update_product others user_id product_id product_data conn)
           = commit (update_product_row product_data product_id user_id
                       (others_commit others conn))"
    by (rule update_product_unversioned [of product_id user_id conn row product_data others])
       (use h in blast)+
  show "products (db (snd (update_product others user_id product_id product_data conn)))
                = map (\<lambda>p. if p_id p = product_id \<and> p_userId p = user_id
                            then set_product_fields product_data p else p)
                    (products (others (db conn)))"
    unfolding e update_product_row_products by simp
  show "saved (snd (update_product others user_id product_id product_data conn))
                = db (snd (update_product others user_id product_id product_data conn))"
    unfolding e by (simp add: commit_def)
  show "p_version (set_product_fields product_data x) = p_version x + 1"
    by (rule set_product_fields_version)
next
  assume "pu_stock product_data = Some q"
  then show "p_stock (set_product_fields product_data x) = q"
    using set_product_fields_stock by blast
qed

theorem stock_writes_version_conditioned_witness:
  "saved conn0 = db conn0 \<and>
   select_product_by_name 1 (sc_productName (sale_of ''B'' 4)) (db conn0) = Some prodB \<and>
   filter (stock_hit (p_id prodB) 1 (p_version prodB)) (products (bump_B (db conn0))) = [] \<and>
   products (db (snd (create_sale bump_B 1 (sale_of ''B'' 4) conn0)))
     \<in> {products (db conn0), products (bump_B (db conn0))} \<and>
   select_sale 1 1 (db conn0) = Some sale1 \<and>
   select_product_by_name 1 (s_productName sale1) (db conn0) = Some prodA \<and>
   filter (stock_hit (p_id prodA) 1 (p_version prodA)) (products (bump_A (db conn0))) = [] \<and>
   products (db (snd (delete_sale bump_A 1 1 conn0)))
     \<in> {products (db conn0), products (bump_A (db conn0))} \<and>
   select_product 2 1 (db conn0) = Some prodB \<and>
   filter (stock_hit 2 1 (version_or_1 (p_version prodB))) (products (bump_B (db conn0))) = [] \<and>
   products (db (snd (update_product_stock bump_B 1 2 \<lparr>ps_quantity = 5, ps_version = 1\<rparr> conn0)))
     \<in> {products (db conn0), products (bump_B (db conn0))} \<and>
   select_product_by_name 1
     (new_product_name (edit_of None (Some 3) None) (s_productName sale1)) (db conn0)
     = Some prodA \<and>
   filter (stock_hit (p_id prodA) 1 (p_version prodA))
     (if name_changed (edit_of None (Some 3) None) (s_productName sale1)
      then restored_products 1 sale1 (bump_A (db conn0))
      else products (bump_A (db conn0))) = [] \<and>
   products (db (snd (update_sale bump_A 1 1 (edit_of None (Some 3) None) conn0)))
     \<in> {products (db conn0), products (bump_A (db conn0))} \<and>
   pu_version (stock_edit 50 (Some 2)) = Some 2 \<and> 2 \<noteq> version_or_1 (p_version prodB) \<and>
   update_product bump_B 1 2 (stock_edit 50 (Some 2)) conn0 = (Inl VersionConflict, conn0) \<and>
   pu_version (stock_edit 50 None) = None \<and> pu_name (stock_edit 50 None) = None \<and>
   pu_supplierId (stock_edit 50 None) = None \<and> pu_stock (stock_edit 50 None) = Some 50 \<and>
   \<not> no_product_fields (stock_edit 50 None) \<and>
   products (db (snd (update_product bump_B 1 2 (stock_edit 50 None) conn0)))
     = map (\<lambda>p. if p_id p = 2 \<and> p_userId p = 1
                 then set_product_fields (stock_edit 50 None) p else p)
         (products (bump_B (db conn0))) \<and>
   saved (snd (update_product bump_B 1 2 (stock_edit 50 None) conn0))
     = db (snd (update_product bump_B 1 2 (stock_edit 50 None) conn0)) \<and>
   p_version (set_product_fields (stock_edit 50 None) (prodB\<lparr>p_stock := 18, p_version := 2\<rparr>))
     = p_version (prodB\<lparr>p_stock := 18, p_version := 2\<rparr>) + 1 \<and>
   p_stock (set_product_fields (stock_edit 50 None) (prodB\<lparr>p_stock := 18, p_version := 2\<rparr>))
     = 50 \<and>
   products (db (snd (update_product bump_B 1 2 (stock_edit 50 None) conn0)))
     = [prodA, prodB\<lparr>p_stock := 50, p_version := 3\<rparr>]"
proof -
  have clean: "saved conn0 = db conn0"
    by code_simp
  have a: "select_product_by_name 1 (sc_productName (sale_of ''B'' 4)) (db conn0) = Some prodB \<and>
     filter (stock_hit (p_id prodB) 1 (p_version prodB)) (products (bump_B (db conn0))) = []"
    by code_simp
  have b: "select_sale 1 1 (db conn0) = Some sale1 \<and>
     select_product_by_name 1 (s_productName sale1) (db conn0) = Some prodA \<and>
     filter (stock_hit (p_id prodA) 1 (p_version prodA)) (products (bump_A (db conn0))) = []"
    by code_simp
  have c: "select_product 2 1 (db conn0) = Some prodB \<and>
     filter (stock_hit 2 1 (version_or_1 (p_version prodB))) (products (bump_B (db conn0))) = []"
    by code_simp
  have d: "select_product_by_name 1
       (new_product_name (edit_of None (Some 3) None) (s_productName sale1)) (db conn0)
       = Some prodA \<and>
     filter (stock_hit (p_id prodA) 1 (p_version prodA))
       (if name_changed (edit_of None (Some 3) None) (s_productName sale1)
        then restored_products 1 sale1 (bump_A (db conn0))
        else products (bump_A (db conn0))) = []"
    by code_simp
  have e: "pu_version (stock_edit 50 (Some 2)) = Some 2 \<and>
     2 \<noteq> version_or_1 (p_version prodB)"
    by code_simp
  have f: "pu_version (stock_edit 50 None) = None \<and> pu_name (stock_edit 50 None) = None \<and>
     pu_supplierId (stock_edit 50 None) = None \<and> pu_stock (stock_edit 50 None) = Some 50 \<and>
     \<not> no_product_fields (stock_edit 50 None)"
    by code_simp
  have f1: "\<not> (case pu_name (stock_edit 50 None) of
                None \<Rightarrow> False
              | Some n \<Rightarrow> n \<noteq> [] \<and> n \<noteq> p_name prodB \<and>
                  find (\<lambda>p. p_userId p = 1 \<and> p_name p = n \<and> p_id p \<noteq> 2)
                    (products (db conn0)) \<noteq> None)"
    using f by simp
  have f2: "\<not> (case pu_supplierId (stock_edit 50 None) of
                None \<Rightarrow> False
              | Some k \<Rightarrow> Some k \<noteq> p_supplierId prodB \<and> k \<noteq> 0 \<and>
                  \<not> supplier_exists k 1 (db conn0))"
    using f by simp
  have g: "products (db (snd (update_product bump_B 1 2 (stock_edit 50 None) conn0)))
     = [prodA, prodB\<lparr>p_stock := 50, p_version := 3\<rparr>]"
    by code_simp
  note t1 = stock_writes_version_conditioned [OF clean, of 1 "sale_of ''B'' 4" prodB bump_B
      1 sale1 prodA 2 prodB "\<lparr>ps_quantity = 5, ps_version = 1\<rparr>"
      "edit_of None (Some 3) None" prodA "stock_edit 50 (Some 2)" 2
      "prodB\<lparr>p_stock := 18, p_version := 2\<rparr>" 50]
  note t2 = stock_writes_version_conditioned [OF clean, of 1 "sale_of ''B'' 4" prodB bump_A
      1 sale1 prodA 2 prodB "\<lparr>ps_quantity = 5, ps_version = 1\<rparr>"
      "edit_of None (Some 3) None" prodA "stock_edit 50 None" 2
      "prodB\<lparr>p_stock := 18, p_version := 2\<rparr>" 50]
  note t3 = stock_writes_version_conditioned [OF clean, of 1 "sale_of ''B'' 4" prodB bump_B
      1 sale1 prodA 2 prodB "\<lparr>ps_quantity = 5, ps_version = 1\<rparr>"
      "edit_of None (Some 3) None" prodA "stock_edit 50 None" 2
      "prodB\<lparr>p_stock := 18, p_version := 2\<rparr>" 50]
  have w1: "products (db (snd (create_sale bump_B 1 (sale_of ''B'' 4) conn0)))
     \<in> {products (db conn0), products (bump_B (db conn0))}"
    using a t1 by blast
  have w2: "products (db (snd (delete_sale bump_A 1 1 conn0)))
     \<in> {products (db conn0), products (bump_A (db conn0))}"
    using b t2 by blast
  have w3: "products (db (snd (update_product_stock bump_B 1 2
                                 \<lparr>ps_quantity = 5, ps_version = 1\<rparr> conn0)))
     \<in> {products (db conn0), products (bump_B (db conn0))}"
    using c t1 by blast
  have w4: "products (db (snd (update_sale bump_A 1 1 (edit_of None (Some 3) None) conn0)))
     \<in> {products (db conn0), products (bump_A (db conn0))}"
    using b d t2 by blast
  have w5: "update_product bump_B 1 2 (stock_edit 50 (Some 2)) conn0
     = (Inl VersionConflict, conn0)"
    using c e t1 by blast
  have w6: "products (db (snd (update_product bump_B 1 2 (stock_edit 50 None) conn0)))
     = map (\<lambda>p. if p_id p = 2 \<and> p_userId p = 1
                 then set_product_fields (stock_edit 50 None) p else p)
         (products (bump_B (db conn0))) \<and>
     saved (snd (update_product bump_B 1 2 (stock_edit 50 None) conn0))
       = db (snd (update_product bump_B 1 2 (stock_edit 50 None) conn0)) \<and>
     p_version (set_product_fields (stock_edit 50 None) (prodB\<lparr>p_stock := 18, p_version := 2\<rparr>))
       = p_version (prodB\<lparr>p_stock := 18, p_version := 2\<rparr>) + 1 \<and>
     p_stock (set_product_fields (stock_edit 50 None) (prodB\<lparr>p_stock := 18, p_version := 2\<rparr>))
       = 50"
    using c f f1 f2 t3 by blast
  show ?thesis
    using clean a b c d e f g w1 w2 w3 w4 w5 w6 by blast
qed

text \<open>
  The claim has every write of stock conditioned on the expected version. The general
  update wrote stock 50 into product B with expected version 1 after another connection
  had taken B to version 2, and it wrote stock with no expected version at all.
\<close>

theorem general_update_writes_stock_counterexample:
  "select_product 2 1 (db conn0) = Some prodB \<and>
   select_product 2 1 (bump_B (db conn0)) = Some (prodB\<lparr>p_stock := 18, p_version := 2\<rparr>) \<and>
   fst (update_product bump_B 1 2 (stock_edit 50 (Some 1)) conn0)
     = Inr (prodB\<lparr>p_stock := 50, p_version := 3\<rparr>) \<and>
   fst (update_product no_others 1 2 (stock_edit 50 None) conn0)
     = Inr (prodB\<lparr>p_stock := 50, p_version := 2\<rparr>)"
  by code_simp

subsection \<open>Stock is never negative\<close>

lemma stock_ok_set_stock:
  "0 \<le> new_stock \<Longrightarrow> stock_ok rows \<Longrightarrow>
   stock_ok (set_stock new_stock product_id user_id version rows)"
  by (induction rows) (simp_all add: stock_ok_def set_stock_def)

lemma stock_ok_restored:
  assumes "stock_ok (products d)" "0 \<le> s_quantity row"
  shows "stock_ok (restored_products user_id row d)"
proof (cases "select_product_by_name user_id (s_productName row) d")
  case None
  then show ?thesis using assms by (simp add: restored_products_def)
next
  case (Some old_product)
  then have "old_product \<in> set (products d)"
    unfolding select_product_by_name_def by (auto dest: find_Some_hit)
  then have "0 \<le> p_stock old_product"
    using assms(1) by (simp add: stock_ok_def)
  then show ?thesis
    using assms by (simp add: restored_products_def Some stock_ok_set_stock)
qed

lemma stock_ok_append: "stock_ok rows \<Longrightarrow> 0 \<le> p_stock r \<Longrightarrow> stock_ok (rows @ [r])"
  by (simp add: stock_ok_def)

lemma stock_ok_filter: "stock_ok rows \<Longrightarrow> stock_ok (filter P rows)"
  by (simp add: stock_ok_def)

lemma stock_ok_fields:
  assumes "stock_ok rows" "case pu_stock product_data of None \<Rightarrow> True | Some q \<Rightarrow> 0 \<le> q"
  shows "stock_ok (map (\<lambda>p. if p_id p = product_id \<and> p_userId p = user_id
                             then set_product_fields product_data p else p) rows)"
proof -
  have "0 \<le> p_stock (set_product_fields product_data p)" if "0 \<le> p_stock p" for p
    using assms(2) that by (simp add: set_product_fields_def split: option.splits)
  then show ?thesis
    using assms(1) by (induction rows) (simp_all add: stock_ok_def)
qed

lemma quantity_ok_append:
  "quantity_ok rows \<Longrightarrow> 0 \<le> s_quantity r \<Longrightarrow> quantity_ok (rows @ [r])"
  by (simp add: quantity_ok_def)

lemma quantity_ok_filter: "quantity_ok rows \<Longrightarrow> quantity_ok (filter P rows)"
  by (simp add: quantity_ok_def)

lemma quantity_ok_fields:
  assumes "quantity_ok rows" "case su_quantity sale_data of None \<Rightarrow> True | Some q \<Rightarrow> 0 \<le> q"
  shows "quantity_ok (map (\<lambda>s. if s_id s = sale_id \<and> s_userId s = user_id
                                then set_sale_fields sale_data s else s) rows)"
proof -
  have "0 \<le> s_quantity (set_sale_fields sale_data s)" if "0 \<le> s_quantity s" for s
    using assms(2) that by (simp add: set_sale_fields_def split: option.splits)
  then show ?thesis
    using assms(1) by (induction rows) (simp_all add: quantity_ok_def)
qed

lemma update_stock_db_others:
  "customers (db (snd (update_stock ns pid uid v c))) = customers (db c)"
  by (simp add: update_stock_def Let_def)

lemma saved_commit [simp]: "saved (commit c) = db c"
  by (simp add: commit_def)

lemma saved_rollback [simp]: "saved (rollback c) = saved c"
  by (simp add: rollback_def)

lemma delete_sale_row_db [simp]:
  "products (db (delete_sale_row sale_id user_id c)) = products (db c)"
  "sales (db (delete_sale_row sale_id user_id c))
     = filter (\<lambda>s. \<not> (s_id s = sale_id \<and> s_userId s = user_id)) (sales (db c))"
  "saved (delete_sale_row sale_id user_id c) = saved c"
  by (simp_all add: delete_sale_row_def)

lemma create_sale_inv:
  assumes inv: "stock_inv (db conn)" and clean: "saved conn = db conn"
    and oth: "\<forall>d. stock_inv d \<longrightarrow> stock_inv (others d)"
    and v: "0 \<le> sc_quantity sale_data"
  shows "stock_inv (db (snd (create_sale others user_id sale_data conn))) \<and>
         saved (snd (create_sale others user_id sale_data conn))
           = db (snd (create_sale others user_id sale_data conn))"
proof (cases "select_product_by_name user_id (sc_productName sale_data) (db conn)")
  case None
  then show ?thesis using inv clean by (simp add: create_sale_def)
next
  case (Some p)
  have oi: "stock_ok (products (others (db conn)))" "quantity_ok (sales (others (db conn)))"
    using inv oth by (auto simp: stock_inv_def)
  show ?thesis
    unfolding create_sale_unfold [OF Some]
    using inv clean oi v
    by (simp add: stock_inv_def update_stock_products insert_sale_sales
        stock_ok_set_stock quantity_ok_append)
qed

lemma delete_sale_inv:
  assumes inv: "stock_inv (db conn)" and clean: "saved conn = db conn"
    and oth: "\<forall>d. stock_inv d \<longrightarrow> stock_inv (others d)"
  shows "stock_inv (db (snd (delete_sale others user_id sale_id conn))) \<and>
         saved (snd (delete_sale others user_id sale_id conn))
           = db (snd (delete_sale others user_id sale_id conn))"
proof (cases "select_sale sale_id user_id (db conn)")
  case None
  then show ?thesis using inv clean by (simp add: delete_sale_def)
next
  case (Some sale)
  then have "sale \<in> set (sales (db conn))"
    unfolding select_sale_def by (auto dest: find_Some_hit)
  then have q: "0 \<le> s_quantity sale"
    using inv by (simp add: stock_inv_def quantity_ok_def)
  have oi: "stock_ok (products (others (db conn)))" "quantity_ok (sales (others (db conn)))"
    using inv oth by (auto simp: stock_inv_def)
  show ?thesis
  proof (cases "select_product_by_name user_id (s_productName sale) (db conn)")
    case None
    show ?thesis
      unfolding delete_sale_unfold [OF Some]
      using oi by (simp add: None stock_inv_def quantity_ok_filter)
  next
    case pr: (Some product)
    then have "product \<in> set (products (db conn))"
      unfolding select_product_by_name_def by (auto dest: find_Some_hit)
    then have "0 \<le> p_stock product"
      using inv by (simp add: stock_inv_def stock_ok_def)
    then show ?thesis
      unfolding delete_sale_unfold [OF Some]
      using oi q clean
      by (simp add: pr stock_inv_def update_stock_products stock_ok_set_stock quantity_ok_filter)
  qed
qed

lemma update_product_stock_inv:
  assumes inv: "stock_inv (db conn)" and clean: "saved conn = db conn"
    and oth: "\<forall>d. stock_inv d \<longrightarrow> stock_inv (others d)"
  shows "stock_inv (db (snd (update_product_stock others user_id product_id stock_data conn))) \<and>
         saved (snd (update_product_stock others user_id product_id stock_data conn))
           = db (snd (update_product_stock others user_id product_id stock_data conn))"
proof (cases "select_product product_id user_id (db conn)")
  case None
  then show ?thesis using inv clean by (simp add: update_product_stock_def)
next
  case (Some row)
  have oi: "stock_ok (products (others (db conn)))" "quantity_ok (sales (others (db conn)))"
    using inv oth by (auto simp: stock_inv_def)
  define u where "u = update_stock (p_stock row + ps_quantity stock_data) product_id user_id
                        (version_or_1 (p_version row)) (others_commit others conn)"
  have a: "stock_inv (db (snd u))" if "0 \<le> p_stock row + ps_quantity stock_data"
    using oi that by (simp add: u_def stock_inv_def update_stock_products stock_ok_set_stock)
  have b: "saved (snd u) = db (snd u)" if "total_changes (snd u) = 0"
  proof -
    from that have "fst u = 0"
      by (simp add: u_def update_stock_total_changes)
    then have "filter (stock_hit product_id user_id (version_or_1 (p_version row)))
                 (products (others (db conn))) = []"
      by (simp add: u_def update_stock_rowcount)
    then show ?thesis
      by (simp add: u_def update_stock_def Let_def set_stock_no_hit clean)
  qed
  show ?thesis
    unfolding update_product_stock_unfold [OF Some] u_def [symmetric]
    using inv clean a b by (simp split: option.splits)
qed

lemma update_product_inv:
  assumes inv: "stock_inv (db conn)" and clean: "saved conn = db conn"
    and oth: "\<forall>d. stock_inv d \<longrightarrow> stock_inv (others d)"
    and v: "case pu_stock product_data of None \<Rightarrow> True | Some q \<Rightarrow> 0 \<le> q"
  shows "stock_inv (db (snd (update_product others user_id product_id product_data conn))) \<and>
         saved (snd (update_product others user_id product_id product_data conn))
           = db (snd (update_product others user_id product_id product_data conn))"
proof -
  have oi: "stock_ok (products (others (db conn)))" "quantity_ok (sales (others (db conn)))"
    using inv oth by (auto simp: stock_inv_def)
  have "stock_inv (db (commit (update_product_row product_data product_id user_id
                                 (others_commit others conn))))"
    using oi stock_ok_fields [OF oi(1) v]
    by (simp add: stock_inv_def update_product_row_def)
  then show ?thesis
    using update_product_conn [of others user_id product_id product_data conn] inv clean
    by auto
qed

lemma create_product_inv:
  assumes inv: "stock_inv (db conn)" and clean: "saved conn = db conn"
    and v: "0 \<le> pc_stock product_data"
  shows "stock_inv (db (snd (create_product user_id product_data conn))) \<and>
         saved (snd (create_product user_id product_data conn))
           = db (snd (create_product user_id product_data conn))"
proof -
  have "stock_inv (db (commit (snd (insert_product
                   \<lparr>p_id = 0, p_userId = user_id,
                    p_name = pc_name product_data,
                    p_description = pc_description product_data,
                    p_stock = pc_stock product_data,
                    p_unit = pc_unit product_data,
                    p_supplierId = pc_supplierId product_data,
                    p_version = 1\<rparr> conn))))"
    using inv v by (simp add: stock_inv_def insert_product_def Let_def stock_ok_append)
  then show ?thesis
    using create_product_conn [of user_id product_data conn] inv clean
    by auto
qed

lemma delete_product_inv:
  assumes inv: "stock_inv (db conn)" and clean: "saved conn = db conn"
  shows "stock_inv (db (snd (delete_product user_id product_id conn))) \<and>
         saved (snd (delete_product user_id product_id conn))
           = db (snd (delete_product user_id product_id conn))"
proof -
  have "stock_inv (db (commit (delete_product_row product_id user_id conn)))"
    using inv by (simp add: stock_inv_def delete_product_row_def stock_ok_filter)
  then show ?thesis
    using delete_product_conn [of user_id product_id conn] inv clean
    by auto
qed

lemma update_sale_txn_inv:
  assumes oi: "stock_inv (db c1)" and clean: "saved c1 = db c1"
    and q: "0 \<le> s_quantity row"
    and v: "case su_quantity sale_data of None \<Rightarrow> True | Some q \<Rightarrow> 0 \<le> q"
  shows "stock_inv (db (snd (update_sale_txn user_id sale_id sale_data row np c1))) \<and>
         saved (snd (update_sale_txn user_id sale_id sale_data row np c1))
           = db (snd (update_sale_txn user_id sale_id sale_data row np c1))"
proof -
  define c2 where "c2 = update_sale_row sale_data sale_id user_id c1"
  define c3 where "c3 = (if name_changed sale_data (s_productName row)
                   then snd (restore_old_product user_id (s_productName row) (s_quantity row) c2)
                   else c2)"
  define new_stock where
    "new_stock = p_stock np + (s_quantity row - quantity_or_old sale_data (s_quantity row))"
  define u where "u = update_stock new_stock (p_id np) user_id (p_version np) c3"
  have ok1: "stock_ok (products (db c1))" "quantity_ok (sales (db c1))"
    using oi by (simp_all add: stock_inv_def)
  have q2: "quantity_ok (sales (db c2))"
    unfolding c2_def update_sale_row_sales by (rule quantity_ok_fields [OF ok1(2) v])
  have p2: "stock_ok (products (db c2))"
    by (simp add: c2_def ok1)
  have p3: "stock_ok (products (db c3))"
  proof (cases "name_changed sale_data (s_productName row)")
    case True
    then show ?thesis
      using stock_ok_restored [OF p2 q, of user_id]
      by (simp add: c3_def restore_old_product_products)
  next
    case False
    then show ?thesis by (simp add: c3_def p2)
  qed
  have q3: "sales (db c3) = sales (db c2)"
    by (simp add: c3_def)
  have s3: "saved c3 = saved c1"
    by (simp add: c3_def c2_def)
  have iu: "stock_inv (db (snd u))" if "0 \<le> new_stock"
    using that p3 q2 by (simp add: u_def stock_inv_def update_stock_products stock_ok_set_stock q3)
  have i2: "stock_inv (db c2)"
    using p2 q2 by (simp add: stock_inv_def)
  show ?thesis
  proof (cases rule: update_sale_txn_paths [of sale_data user_id sale_id row np c1])
    case no_fields
    then show ?thesis using oi clean by simp
  next
    case same_quantity
    then have "update_sale_txn user_id sale_id sale_data row np c1 = (None, commit c2)"
      by (simp add: c2_def)
    then show ?thesis using i2 by simp
  next
    case negative
    then have "update_sale_txn user_id sale_id sale_data row np c1
                 = (Some InsufficientStock, rollback c2)"
      by (simp add: c2_def)
    then show ?thesis using oi clean by (simp add: c2_def)
  next
    case new_conflict
    have "update_sale_txn user_id sale_id sale_data row np c1
                 = (Some VersionConflict, rollback (snd u))"
      unfolding u_def c3_def c2_def new_stock_def by (rule new_conflict(5))
    then show ?thesis using oi clean by (simp add: u_def s3)
  next
    case moved
    have e: "update_sale_txn user_id sale_id sale_data row np c1 = (None, commit (snd u))"
      unfolding u_def c3_def c2_def new_stock_def by (rule moved(5))
    have "0 \<le> new_stock"
      unfolding new_stock_def by (rule moved(3))
    then show ?thesis using iu by (simp add: e)
  qed
qed

lemma update_sale_inv:
  assumes inv: "stock_inv (db conn)" and clean: "saved conn = db conn"
    and oth: "\<forall>d. stock_inv d \<longrightarrow> stock_inv (others d)"
    and v: "case su_quantity sale_data of None \<Rightarrow> True | Some q \<Rightarrow> 0 \<le> q"
  shows "stock_inv (db (snd (update_sale others user_id sale_id sale_data conn))) \<and>
         saved (snd (update_sale others user_id sale_id sale_data conn))
           = db (snd (update_sale others user_id sale_id sale_data conn))"
proof -
  have oi: "stock_inv (db (others_commit others conn))"
    using inv oth by simp
  have oc: "saved (others_commit others conn) = db (others_commit others conn)"
    by (simp add: clean)
  have q: "0 \<le> s_quantity row" if "select_sale sale_id user_id (db conn) = Some row" for row
  proof -
    from that have "row \<in> set (sales (db conn))"
      unfolding select_sale_def by (auto dest: find_Some_hit)
    then show ?thesis using inv by (simp add: stock_inv_def quantity_ok_def)
  qed
  show ?thesis
  proof (cases rule: update_sale_paths [of sale_id user_id conn others sale_data])
    case (txn_failed row np e c)
    then have "c = snd (update_sale_txn user_id sale_id sale_data row np (others_commit others conn))"
      by simp
    then show ?thesis
      using update_sale_txn_inv [OF oi oc q [OF txn_failed(1)] v, of user_id sale_id np]
        txn_failed(6) by simp
  next
    case (txn_done row np c)
    then have "c = snd (update_sale_txn user_id sale_id sale_data row np (others_commit others conn))"
      by simp
    then show ?thesis
      using update_sale_txn_inv [OF oi oc q [OF txn_done(1)] v, of user_id sale_id np]
        txn_done(6) by simp
  qed (use inv clean in simp_all)
qed

lemma handle_inv:
  assumes inv: "stock_inv (db conn)" and clean: "saved conn = db conn"
    and oth: "\<forall>d. stock_inv d \<longrightarrow> stock_inv (others d)"
    and v: "nonneg_request req"
  shows "stock_inv (db (handle others req conn)) \<and>
         saved (handle others req conn) = db (handle others req conn)"
proof (cases req)
  case (CreateSale user_id sale_data)
  then show ?thesis using create_sale_inv [OF inv clean oth] v by simp
next
  case (UpdateSale user_id sale_id sale_data)
  then show ?thesis using update_sale_inv [OF inv clean oth] v by simp
next
  case (DeleteSale user_id sale_id)
  then show ?thesis using delete_sale_inv [OF inv clean oth] by simp
next
  case (CreateProduct user_id product_data)
  then show ?thesis using create_product_inv [OF inv clean] v by simp
next
  case (UpdateProduct user_id product_id product_data)
  then show ?thesis using update_product_inv [OF inv clean oth] v by simp
next
  case (DeleteProduct user_id product_id)
  then show ?thesis using delete_product_inv [OF inv clean] by simp
next
  case (UpdateProductStock user_id product_id stock_data)
  then show ?thesis using update_product_stock_inv [OF inv clean oth] by simp
qed

lemma run_inv:
  assumes "stock_inv (db conn)" "saved conn = db conn"
    and "\<forall>step \<in> set steps. nonneg_request (snd step) \<and>
           (\<forall>d. stock_inv d \<longrightarrow> stock_inv (fst step d))"
  shows "stock_inv (db (run steps conn)) \<and> saved (run steps conn) = db (run steps conn)"
  using assms
proof (induction steps arbitrary: conn)
  case Nil
  then show ?case by simp
next
  case (Cons step steps)
  have h: "stock_inv (db (handle (fst step) (snd step) conn)) \<and>
        saved (handle (fst step) (snd step) conn) = db (handle (fst step) (snd step) conn)"
    using Cons.prems by (intro handle_inv) simp_all
  show ?case
    using Cons.IH [of "handle (fst step) (snd step) conn"] h Cons.prems(3) by simp
qed

lemma create_product_stored:
  assumes "create_product user_id product_data conn = (Inr r, conn1)"
  shows "p_stock r = pc_stock product_data \<and> p_version r = 1 \<and>
         select_product_by_id (p_id r) (db conn1) = Some r"
proof -
  define row0 where "row0 = \<lparr>p_id = 0, p_userId = user_id,
                    p_name = pc_name product_data,
                    p_description = pc_description product_data,
                    p_stock = pc_stock product_data,
                    p_unit = pc_unit product_data,
                    p_supplierId = pc_supplierId product_data,
                    p_version = 1\<rparr>"
  define i where "i = next_rowid (map p_id (products (db conn)))"
  define row where "row = row0\<lparr>p_id := i\<rparr>"
  define c2 where "c2 = commit (snd (insert_product row0 conn))"
  have e: "create_product user_id product_data conn =
      (case select_product_by_name user_id (pc_name product_data) (db conn) of
         Some existing \<Rightarrow> (Inl NameExists, conn)
       | None \<Rightarrow>
           if (case pc_supplierId product_data of
                 None \<Rightarrow> False
               | Some k \<Rightarrow> \<not> supplier_exists k user_id (db conn))
           then (Inl (InvalidReference RefSupplier), conn)
           else (case select_product_by_id i (db c2) of
                   None \<Rightarrow> (Inl Unexpected, c2)
                 | Some x \<Rightarrow> (Inr (ProductResponse x), c2)))"
    unfolding create_product_def Let_def row0_def c2_def i_def
    by (simp add: case_prod_unfold insert_product_def Let_def split: option.splits)
  have p2: "products (db c2) = products (db conn) @ [row]"
    by (simp add: c2_def insert_product_def Let_def row_def i_def)
  have fresh: "\<forall>x \<in> set (products (db conn)). \<not> p_id x = i"
    using next_rowid_fresh [of _ "map p_id (products (db conn))"] by (auto simp: i_def)
  have f: "select_product_by_id i (db c2) = Some row"
    unfolding select_product_by_id_def p2
    by (rule find_append_last [OF fresh]) (simp add: row_def)
  have v: "ProductResponse row = row"
    by (simp add: ProductResponse_def version_or_1_def row_def row0_def)
  from assms v have "r = row \<and> conn1 = c2"
    unfolding e by (auto simp: f split: option.splits if_splits)
  then show ?thesis
    using f by (simp add: row_def row0_def)
qed

lemma update_product_done:
  assumes "fst (update_product others user_id product_id product_data conn) = Inr r"
  shows "snd (update_product others user_id product_id product_data conn)
           = commit (update_product_row product_data product_id user_id
                       (others_commit others conn))"
  using assms unfolding update_product_def Let_def
  by (auto split: option.splits if_splits)

lemma product_handlers_never_insufficient:
  "fst (create_product user_id pc conn) \<noteq> Inl InsufficientStock"
  "fst (update_product others user_id product_id pu conn) \<noteq> Inl InsufficientStock"
  unfolding create_product_def update_product_def Let_def
  by (simp_all add: case_prod_unfold split: option.splits)

text \<open>
  C3, as the code has it. Start from a store in which no product has negative stock and
  no sale a negative quantity, on a connection with nothing pending. Serve any sequence
  of requests of the seven routes that carry no negative quantity and no negative stock,
  with other connections that keep the same invariant committing in between. Then no
  product has negative stock afterwards. The three paths that compute a stock below 0
  (\<open>create_sale\<close>, \<open>update_product_stock\<close>, \<open>update_sale\<close>) fail with
  InsufficientStock and hand the connection back as it was. The two product handlers
  have no such test: \<open>create_product\<close> and \<open>update_product\<close> never answer
  InsufficientStock, and when they succeed the stock of the request is what is stored,
  whatever its sign.
\<close>

theorem stock_never_negative:
  assumes inv: "stock_inv (db conn)" and clean: "saved conn = db conn"
    and steps: "\<forall>step \<in> set steps. nonneg_request (snd step) \<and>
           (\<forall>d. stock_inv d \<longrightarrow> stock_inv (fst step d))"
  shows "stock_ok (products (db (run steps conn))) \<and>
         (select_product_by_name user_id (sc_productName new_sale) (db conn) = Some p \<and>
          p_stock p - sc_quantity new_sale < 0 \<longrightarrow>
            create_sale others user_id new_sale conn = (Inl InsufficientStock, conn)) \<and>
         (select_product product_id user_id (db conn) = Some row \<and>
          ps_version stock_data = version_or_1 (p_version row) \<and>
          p_stock row + ps_quantity stock_data < 0 \<longrightarrow>
            update_product_stock others user_id product_id stock_data conn
              = (Inl InsufficientStock, conn)) \<and>
         (select_sale sale_id user_id (db conn) = Some sale \<and>
          select_product_by_name user_id
            (new_product_name sale_data (s_productName sale)) (db conn) = Some np \<and>
          p_stock np + (s_quantity sale - quantity_or_old sale_data (s_quantity sale)) < 0 \<longrightarrow>
            update_sale others user_id sale_id sale_data conn = (Inl InsufficientStock, conn)) \<and>
         fst (create_product user_id new_product conn) \<noteq> Inl InsufficientStock \<and>
         fst (update_product others user_id product_id product_data conn)
           \<noteq> Inl InsufficientStock \<and>
         (create_product user_id new_product conn = (Inr r, conn1) \<longrightarrow>
            p_stock r = pc_stock new_product \<and>
            select_product_by_id (p_id r) (db conn1) = Some r) \<and>
         (fst (update_product others user_id product_id product_data conn) = Inr r' \<and>
          pu_stock product_data = Some q \<longrightarrow>
            products (db (snd (update_product others user_id product_id product_data conn)))
              = map (\<lambda>x. if p_id x = product_id \<and> p_userId x = user_id
                          then set_product_fields product_data x else x)
                  (products (others (db conn))) \<and>
            p_stock (set_product_fields product_data row) = q)"
proof (intro conjI impI)
  show "stock_ok (products (db (run steps conn)))"
    using run_inv [OF inv clean steps] by (simp add: stock_inv_def)
next
  assume "select_product_by_name user_id (sc_productName new_sale) (db conn) = Some p \<and>
          p_stock p - sc_quantity new_sale < 0"
  then show "create_sale others user_id new_sale conn = (Inl InsufficientStock, conn)"
    by (simp add: create_sale_unfold [of user_id new_sale conn p])
next
  assume "select_product product_id user_id (db conn) = Some row \<and>
          ps_version stock_data = version_or_1 (p_version row) \<and>
          p_stock row + ps_quantity stock_data < 0"
  then show "update_product_stock others user_id product_id stock_data conn
              = (Inl InsufficientStock, conn)"
    by (simp add: update_product_stock_unfold [of product_id user_id conn row])
next
  assume h: "select_sale sale_id user_id (db conn) = Some sale \<and>
          select_product_by_name user_id
            (new_product_name sale_data (s_productName sale)) (db conn) = Some np \<and>
          p_stock np + (s_quantity sale - quantity_or_old sale_data (s_quantity sale)) < 0"
  then have "np \<in> set (products (db conn))"
    unfolding select_product_by_name_def by (auto dest: find_Some_hit)
  then have "0 \<le> p_stock np"
    using inv by (simp add: stock_inv_def stock_ok_def)
  with h have "quantity_or_old sale_data (s_quantity sale) > s_quantity sale \<and>
      p_stock np < quantity_or_old sale_data (s_quantity sale) - s_quantity sale"
    by auto
  with h show "update_sale others user_id sale_id sale_data conn = (Inl InsufficientStock, conn)"
    by (simp add: update_sale_def Let_def new_product_lookup)
next
  show "fst (create_product user_id new_product conn) \<noteq> Inl InsufficientStock"
    by (rule product_handlers_never_insufficient)
  show "fst (update_product others user_id product_id product_data conn)
           \<noteq> Inl InsufficientStock"
    by (rule product_handlers_never_insufficient)
next
  assume c: "create_product user_id new_product conn = (Inr r, conn1)"
  show "p_stock r = pc_stock new_product"
    using create_product_stored [OF c] by simp
  show "select_product_by_id (p_id r) (db conn1) = Some r"
    using create_product_stored [OF c] by simp
next
  assume h: "fst (update_product others user_id product_id product_data conn) = Inr r' \<and>
          pu_stock product_data = Some q"
  then have e: "snd (update_product others user_id product_id product_data conn)
           = commit (update_product_row product_data product_id user_id
                       (others_commit others conn))"
    using update_product_done by blast
  show "products (db (snd (update_product others user_id product_id product_data conn)))
              = map (\<lambda>x. if p_id x = product_id \<and> p_userId x = user_id
                          then set_product_fields product_data x else x)
                  (products (others (db conn)))"
    unfolding e update_product_row_products by simp
  show "p_stock (set_product_fields product_data row) = q"
    using h set_product_fields_stock by blast
qed

theorem stock_never_negative_witness:
  "stock_inv (db conn0) \<and> saved conn0 = db conn0 \<and>
   list_all (\<lambda>step. nonneg_request (snd step))
     [(no_others, CreateSale 1 (sale_of ''B'' 20)),
      (no_others, UpdateSale 1 1 move_to_B),
      (no_others, UpdateProductStock 1 1 \<lparr>ps_quantity = - 3, ps_version = 1\<rparr>),
      (no_others, DeleteSale 1 2),
      (no_others, UpdateProduct 1 2 (stock_edit 0 None))] \<and>
   stock_ok (products (db (run [(no_others, CreateSale 1 (sale_of ''B'' 20)),
                  (no_others, UpdateSale 1 1 move_to_B),
                  (no_others, UpdateProductStock 1 1 \<lparr>ps_quantity = - 3, ps_version = 1\<rparr>),
                  (no_others, DeleteSale 1 2),
                  (no_others, UpdateProduct 1 2 (stock_edit 0 None))] conn0))) \<and>
   select_product_by_name 1 (sc_productName (sale_of ''A'' 15)) (db conn0) = Some prodA \<and>
   p_stock prodA - sc_quantity (sale_of ''A'' 15) < 0 \<and>
   create_sale no_others 1 (sale_of ''A'' 15) conn0 = (Inl InsufficientStock, conn0) \<and>
   select_product 1 1 (db conn0) = Some prodA \<and>
   ps_version \<lparr>ps_quantity = - 11, ps_version = 1\<rparr> = version_or_1 (p_version prodA) \<and>
   p_stock prodA + ps_quantity \<lparr>ps_quantity = - 11, ps_version = 1\<rparr> < 0 \<and>
   update_product_stock no_others 1 1 \<lparr>ps_quantity = - 11, ps_version = 1\<rparr> conn0
     = (Inl InsufficientStock, conn0) \<and>
   select_sale 1 1 (db conn0) = Some sale1 \<and>
   select_product_by_name 1
     (new_product_name (edit_of None (Some 16) None) (s_productName sale1)) (db conn0)
     = Some prodA \<and>
   p_stock prodA + (s_quantity sale1
       - quantity_or_old (edit_of None (Some 16) None) (s_quantity sale1)) < 0 \<and>
   update_sale no_others 1 1 (edit_of None (Some 16) None) conn0 = (Inl InsufficientStock, conn0) \<and>
   create_product 1 (new_C\<lparr>pc_stock := - 5\<rparr>) conn0
     = (Inr (prodC\<lparr>p_stock := - 5\<rparr>), snd (create_product 1 (new_C\<lparr>pc_stock := - 5\<rparr>) conn0)) \<and>
   p_stock (prodC\<lparr>p_stock := - 5\<rparr>) = pc_stock (new_C\<lparr>pc_stock := - 5\<rparr>) \<and>
   select_product_by_id (p_id (prodC\<lparr>p_stock := - 5\<rparr>))
     (db (snd (create_product 1 (new_C\<lparr>pc_stock := - 5\<rparr>) conn0)))
     = Some (prodC\<lparr>p_stock := - 5\<rparr>) \<and>
   fst (update_product no_others 1 1 (stock_edit (- 5) None) conn0)
     = Inr (prodA\<lparr>p_stock := - 5, p_version := 2\<rparr>) \<and>
   pu_stock (stock_edit (- 5) None) = Some (- 5) \<and>
   products (db (snd (update_product no_others 1 1 (stock_edit (- 5) None) conn0)))
     = map (\<lambda>x. if p_id x = 1 \<and> p_userId x = 1
                 then set_product_fields (stock_edit (- 5) None) x else x)
         (products (no_others (db conn0))) \<and>
   p_stock (set_product_fields (stock_edit (- 5) None) prodA) = - 5"
proof -
  have inv: "stock_inv (db conn0)"
    by code_simp
  have clean: "saved conn0 = db conn0"
    by code_simp
  have steps: "\<forall>step \<in> set [(no_others, CreateSale 1 (sale_of ''B'' 20)),
                  (no_others, UpdateSale 1 1 move_to_B),
                  (no_others, UpdateProductStock 1 1 \<lparr>ps_quantity = - 3, ps_version = 1\<rparr>),
                  (no_others, DeleteSale 1 2),
                  (no_others, UpdateProduct 1 2 (stock_edit 0 None))].
      nonneg_request (snd step) \<and> (\<forall>d. stock_inv d \<longrightarrow> stock_inv (fst step d))"
    by (simp add: no_others_def sale_of_def move_to_B_def edit_of_def stock_edit_def)
  have a: "select_product_by_name 1 (sc_productName (sale_of ''A'' 15)) (db conn0) = Some prodA \<and>
     p_stock prodA - sc_quantity (sale_of ''A'' 15) < 0"
    by code_simp
  have b: "select_product 1 1 (db conn0) = Some prodA \<and>
     ps_version \<lparr>ps_quantity = - 11, ps_version = 1\<rparr> = version_or_1 (p_version prodA) \<and>
     p_stock prodA + ps_quantity \<lparr>ps_quantity = - 11, ps_version = 1\<rparr> < 0"
    by code_simp
  have c: "select_sale 1 1 (db conn0) = Some sale1 \<and>
     select_product_by_name 1
       (new_product_name (edit_of None (Some 16) None) (s_productName sale1)) (db conn0)
       = Some prodA \<and>
     p_stock prodA + (s_quantity sale1
       - quantity_or_old (edit_of None (Some 16) None) (s_quantity sale1)) < 0"
    by code_simp
  have "fst (create_product 1 (new_C\<lparr>pc_stock := - 5\<rparr>) conn0) = Inr (prodC\<lparr>p_stock := - 5\<rparr>)"
    by code_simp
  then have d: "create_product 1 (new_C\<lparr>pc_stock := - 5\<rparr>) conn0
     = (Inr (prodC\<lparr>p_stock := - 5\<rparr>), snd (create_product 1 (new_C\<lparr>pc_stock := - 5\<rparr>) conn0))"
    by (simp add: prod_eq_iff)
  have e: "fst (update_product no_others 1 1 (stock_edit (- 5) None) conn0)
       = Inr (prodA\<lparr>p_stock := - 5, p_version := 2\<rparr>) \<and>
     pu_stock (stock_edit (- 5) None) = Some (- 5)"
    by code_simp
  note t = stock_never_negative [OF inv clean steps, of 1 "sale_of ''A'' 15" prodA no_others
      1 prodA "\<lparr>ps_quantity = - 11, ps_version = 1\<rparr>" 1 sale1
      "edit_of None (Some 16) None" prodA "new_C\<lparr>pc_stock := - 5\<rparr>"
      "stock_edit (- 5) None" "prodC\<lparr>p_stock := - 5\<rparr>"
      "snd (create_product 1 (new_C\<lparr>pc_stock := - 5\<rparr>) conn0)"
      "prodA\<lparr>p_stock := - 5, p_version := 2\<rparr>" "- 5"]
  have valid: "list_all (\<lambda>step. nonneg_request (snd step))
     [(no_others, CreateSale 1 (sale_of ''B'' 20)),
      (no_others, UpdateSale 1 1 move_to_B),
      (no_others, UpdateProductStock 1 1 \<lparr>ps_quantity = - 3, ps_version = 1\<rparr>),
      (no_others, DeleteSale 1 2),
      (no_others, UpdateProduct 1 2 (stock_edit 0 None))]"
    by code_simp
  have w1: "stock_ok (products (db (run [(no_others, CreateSale 1 (sale_of ''B'' 20)),
                  (no_others, UpdateSale 1 1 move_to_B),
                  (no_others, UpdateProductStock 1 1 \<lparr>ps_quantity = - 3, ps_version = 1\<rparr>),
                  (no_others, DeleteSale 1 2),
                  (no_others, UpdateProduct 1 2 (stock_edit 0 None))] conn0)))"
    using t by blast
  have w2: "create_sale no_others 1 (sale_of ''A'' 15) conn0 = (Inl InsufficientStock, conn0)"
    using a t by blast
  have w3: "update_product_stock no_others 1 1 \<lparr>ps_quantity = - 11, ps_version = 1\<rparr> conn0
     = (Inl InsufficientStock, conn0)"
    using b t by blast
  have w4: "update_sale no_others 1 1 (edit_of None (Some 16) None) conn0
     = (Inl InsufficientStock, conn0)"
    using c t by blast
  have w5: "p_stock (prodC\<lparr>p_stock := - 5\<rparr>) = pc_stock (new_C\<lparr>pc_stock := - 5\<rparr>) \<and>
     select_product_by_id (p_id (prodC\<lparr>p_stock := - 5\<rparr>))
       (db (snd (create_product 1 (new_C\<lparr>pc_stock := - 5\<rparr>) conn0)))
       = Some (prodC\<lparr>p_stock := - 5\<rparr>)"
    using d t by blast
  have w6: "products (db (snd (update_product no_others 1 1 (stock_edit (- 5) None) conn0)))
     = map (\<lambda>x. if p_id x = 1 \<and> p_userId x = 1
                 then set_product_fields (stock_edit (- 5) None) x else x)
         (products (no_others (db conn0))) \<and>
     p_stock (set_product_fields (stock_edit (- 5) None) prodA) = - 5"
    using e t by blast
  show ?thesis
    using inv clean valid a b c d e w1 w2 w3 w4 w5 w6 by blast
qed

text \<open>
  The claim has the stock at least 0 at all times and every path that would take it
  below 0 refused with InsufficientStock. The general update stored stock -5 in
  product A and answered with the row, and \<open>create_product\<close> stored a new product
  with stock -5. A sale of -5 units of A, an adjustment of A down to 0 and the deletion
  of that sale, each of them answered with success, left product A with stock -5.
\<close>

theorem unchecked_stock_counterexample:
  "fst (update_product no_others 1 1 (stock_edit (- 5) None) conn0)
     = Inr (prodA\<lparr>p_stock := - 5, p_version := 2\<rparr>) \<and>
   map p_stock (products (saved (snd (update_product no_others 1 1
                                        (stock_edit (- 5) None) conn0)))) = [- 5, 20] \<and>
   fst (create_product 1 (new_C\<lparr>pc_stock := - 5\<rparr>) conn0) = Inr (prodC\<lparr>p_stock := - 5\<rparr>) \<and>
   map p_stock (products (saved (snd (create_product 1 (new_C\<lparr>pc_stock := - 5\<rparr>) conn0))))
     = [10, 20, - 5] \<and>
   fst (create_sale no_others 1 (sale_of ''A'' (- 5)) conn0)
     = Inr (sale1\<lparr>s_id := 2, s_quantity := - 5\<rparr>) \<and>
   fst (update_product_stock no_others 1 1 \<lparr>ps_quantity = - 15, ps_version = 2\<rparr>
          (snd (create_sale no_others 1 (sale_of ''A'' (- 5)) conn0)))
     = Inr (prodA\<lparr>p_stock := 0, p_version := 3\<rparr>) \<and>
   fst (delete_sale no_others 1 2
          (snd (update_product_stock no_others 1 1 \<lparr>ps_quantity = - 15, ps_version = 2\<rparr>
                  (snd (create_sale no_others 1 (sale_of ''A'' (- 5)) conn0)))))
     = Inr () \<and>
   map p_stock (products (saved (run
       [(no_others, CreateSale 1 (sale_of ''A'' (- 5))),
        (no_others, UpdateProductStock 1 1 \<lparr>ps_quantity = - 15, ps_version = 2\<rparr>),
        (no_others, DeleteSale 1 2)] conn0))) = [- 5, 20]"
  by code_simp

subsection \<open>The version and the successful adjustments\<close>

text \<open>
  C5. The claim has every successful mutating operation take the version one step up.
  After its UPDATE, \<open>update_product_stock\<close> tests \<^verbatim>\<open>conn.total_changes == 0\<close>, the
  count of all rows the connection has changed since it was opened, where \<open>create_sale\<close>
  and \<open>delete_sale\<close> test the \<^verbatim>\<open>rowcount\<close> of the statement. The connection has
  changed rows before, and another connection sells 2 units of product B between the
  SELECT and the UPDATE. The adjustment of B by -3 at expected version 1 then matches
  no row, and it is committed and answered with success all the same: B is at stock 18
  and version 2, as the other connection left it. Two operations succeeded on B, the
  version went one step, and the adjustment is lost. The same request is refused with
  VersionConflict on a connection that has changed no row yet, and it takes B to stock
  17 and version 2 when no other connection comes in between.
\<close>

theorem adjust_stock_success_without_version_step:
  "select_product 2 1 (db conn0) = Some prodB \<and>
   select_product 2 1 (bump_B (db conn0)) = Some (prodB\<lparr>p_stock := 18, p_version := 2\<rparr>) \<and>
   update_product_stock bump_B 1 2 \<lparr>ps_quantity = - 3, ps_version = 1\<rparr> conn0
     = (Inr (prodB\<lparr>p_stock := 18, p_version := 2\<rparr>),
        \<lparr>db = bump_B db0, saved = bump_B db0, total_changes = 3\<rparr>) \<and>
   fst (update_product_stock bump_B 1 2 \<lparr>ps_quantity = - 3, ps_version = 1\<rparr>
          (conn0\<lparr>total_changes := 0\<rparr>)) = Inl VersionConflict \<and>
   fst (update_product_stock no_others 1 2 \<lparr>ps_quantity = - 3, ps_version = 1\<rparr> conn0)
     = Inr (prodB\<lparr>p_stock := 17, p_version := 2\<rparr>)"
  by code_simp

end
